theory Spec2Isabelle
  imports Complex_Main "HOL-Library.AList"
begin

section \<open>Python values\<close>

text \<open>
  The values that reach the request normalizer and the configuration schema. A mapping
  (\<open>dict\<close> with text keys) is an association list; a typed message object (an instance of
  \<open>BaseMessage\<close>) is represented by the field mapping it holds. Lists and tuples stand for
  the iterables with finitely many elements; floats are the finite ones, as rationals (they
  are only compared against bounds).
\<close>

datatype pyval =
    PNone
  | PBool bool
  | PInt int
  | PFloat rat
  | PStr string
  | PList "pyval list"
  | PTuple "pyval list"
  | PDict "(string \<times> pyval) list"
  | PMessage "(string \<times> pyval) list"

datatype error =
    InvalidRole pyval
  | UnsupportedFormat string
  | TypeError string
  | AttributeError string string
  | SchemaValidationError "(string \<times> string) list"
  | UncaughtUseDefault

fun type_name :: "pyval \<Rightarrow> string" where
  "type_name PNone = ''NoneType''"
| "type_name (PBool _) = ''bool''"
| "type_name (PInt _) = ''int''"
| "type_name (PFloat _) = ''float''"
| "type_name (PStr _) = ''str''"
| "type_name (PList _) = ''list''"
| "type_name (PTuple _) = ''tuple''"
| "type_name (PDict _) = ''dict''"
| "type_name (PMessage _) = ''BaseMessage''"

text \<open>
  \<open>unhashable v\<close> is the type named by the \<open>TypeError\<close> that hashing \<open>v\<close> raises, if it
  raises: lists and mappings are unhashable, a tuple is as hashable as its elements, and a
  message object, a schema record that defines equality and is not frozen, is unhashable.
\<close>

fun unhashable :: "pyval \<Rightarrow> string option" where
  "unhashable (PList _) = Some ''list''"
| "unhashable (PDict _) = Some ''dict''"
| "unhashable (PMessage _) = Some ''BaseMessage''"
| "unhashable (PTuple xs) =
     (case filter (\<lambda>r. r \<noteq> None) (map unhashable xs) of [] \<Rightarrow> None | r # _ \<Rightarrow> r)"
| "unhashable _ = None"

section \<open>Request normalizer: \<open>normalize_chat_messages\<close>\<close>

text \<open>
  Modelled from the spec: \<open>BaseMessage.model_dump\<close> is not in the sources; a typed message
  object yields its canonical record form, the mapping of its fields.
\<close>

fun model_dump :: "pyval \<Rightarrow> pyval" where
  "model_dump (PMessage fields) = PDict fields"
| "model_dump v = v"

definition roles :: "pyval list" where
  "roles = [PStr ''user'', PStr ''assistant'', PStr ''tool'', PStr ''system'']"

text \<open>What one iteration of the loop does with the element it popped.\<close>

datatype action = Append pyval | Extend "pyval list" | Raise error

fun classify :: "pyval \<Rightarrow> action" where
  "classify (PStr s) = Append (PDict [(''role'', PStr ''user''), (''content'', PStr s)])"
| "classify (PMessage fields) = Append (model_dump (PMessage fields))"
| "classify (PDict msg) =
     (let role = (case map_of msg ''role'' of None \<Rightarrow> PNone | Some r \<Rightarrow> r) in
      case unhashable role of
        Some t \<Rightarrow> Raise (TypeError t)
      | None \<Rightarrow> if role \<notin> set roles then Raise (InvalidRole role) else Append (PDict msg))"
| "classify (PList xs) = Extend xs"
| "classify (PTuple xs) = Extend xs"
| "classify v = Raise (UnsupportedFormat (type_name v))"

fun nodes :: "pyval \<Rightarrow> nat" where
  "nodes (PList xs) = Suc (sum_list (map nodes xs))"
| "nodes (PTuple xs) = Suc (sum_list (map nodes xs))"
| "nodes v = 1"

lemma nodes_pos: "0 < nodes v"
  by (cases v) auto

lemma classify_Extend_nodes: "classify v = Extend xs \<Longrightarrow> nodes v = Suc (sum_list (map nodes xs))"
  by (cases v) (auto simp: Let_def split: option.splits if_splits)

function normalize_loop :: "pyval list \<Rightarrow> pyval list \<Rightarrow> error + pyval list" where
  "normalize_loop [] normalized_messages = Inr normalized_messages"
| "normalize_loop (msg # queue) normalized_messages =
     (case classify msg of
        Append m \<Rightarrow> normalize_loop queue (normalized_messages @ [m])
      | Extend xs \<Rightarrow> normalize_loop (queue @ xs) normalized_messages
      | Raise e \<Rightarrow> Inl e)"
  by pat_completeness auto
termination
  by (relation "measure (\<lambda>(queue, _). sum_list (map nodes queue))")
     (auto simp: nodes_pos dest: classify_Extend_nodes)

definition normalize_chat_messages :: "pyval \<Rightarrow> error + pyval list" where
  "normalize_chat_messages messages = normalize_loop [messages] []"

text \<open>The same loop with a budget of iterations: \<open>None\<close> when the budget runs out.\<close>

fun normalize_fuel :: "nat \<Rightarrow> pyval list \<Rightarrow> pyval list \<Rightarrow> (error + pyval list) option" where
  "normalize_fuel n [] normalized_messages = Some (Inr normalized_messages)"
| "normalize_fuel 0 (msg # queue) normalized_messages = None"
| "normalize_fuel (Suc n) (msg # queue) normalized_messages =
     (case classify msg of
        Append m \<Rightarrow> normalize_fuel n queue (normalized_messages @ [m])
      | Extend xs \<Rightarrow> normalize_fuel n (queue @ xs) normalized_messages
      | Raise e \<Rightarrow> Some (Inl e))"


fun is_sequence :: "pyval \<Rightarrow> bool" where
  "is_sequence (PList _) = True"
| "is_sequence (PTuple _) = True"
| "is_sequence _ = False"

fun elements :: "pyval \<Rightarrow> pyval list" where
  "elements (PList xs) = xs"
| "elements (PTuple xs) = xs"
| "elements _ = []"

subsection \<open>Termination of the work queue\<close>

lemma fuel_enough:
  "sum_list (map nodes queue) \<le> n \<Longrightarrow>
   normalize_fuel n queue acc = Some (normalize_loop queue acc)"
proof (induction queue acc arbitrary: n rule: normalize_loop.induct)
  case (1 acc)
  then show ?case by simp
next
  case (2 msg queue acc)
  from "2.prems" nodes_pos[of msg] obtain k where n: "n = Suc k"
    by (cases n) auto
  show ?case
  proof (cases "classify msg")
    case (Append m)
    have "sum_list (map nodes queue) \<le> k"
      using "2.prems" n nodes_pos[of msg] by simp
    then show ?thesis using "2.IH"(1)[OF Append] Append n by simp
  next
    case (Extend xs)
    have "sum_list (map nodes (queue @ xs)) \<le> k"
      using "2.prems" n classify_Extend_nodes[OF Extend] by simp
    then show ?thesis using "2.IH"(2)[OF Extend] Extend n by simp
  next
    case (Raise e)
    then show ?thesis using n by simp
  qed
qed

text \<open>
  Claim C10. \<open>normalize_chat_messages\<close> terminates on every finite, acyclic nested input:
  every iteration pops one element and enqueues only that element's own elements, so a
  budget of as many iterations as the input structure has nodes is never exhausted, and
  the loop returns the function's result (a message list or one of its errors).
\<close>

theorem normalize_chat_messages_terminates:
  "nodes messages \<le> n \<Longrightarrow>
   normalize_fuel n [messages] [] = Some (normalize_chat_messages messages)"
  using fuel_enough[of "[messages]" n "[]"] by (simp add: normalize_chat_messages_def)

theorem normalize_chat_messages_terminates_witness:
  "nodes (PList [PStr ''a'', PList [PStr ''b'', PInt 42], PStr ''d'']) \<le> 6 \<and>
   normalize_fuel 6 [PList [PStr ''a'', PList [PStr ''b'', PInt 42], PStr ''d'']] [] =
     Some (Inl (UnsupportedFormat ''int''))"
proof -
  have h: "nodes (PList [PStr ''a'', PList [PStr ''b'', PInt 42], PStr ''d'']) \<le> 6"
    by simp
  show ?thesis
    using h normalize_chat_messages_terminates[OF h]
    by (simp add: normalize_chat_messages_def)
qed

subsection \<open>Order of the output\<close>

lemma classify_sequence: "is_sequence s \<Longrightarrow> classify s = Extend (elements s)"
  by (cases s) auto

lemma classify_not_sequence: "\<not> is_sequence x \<Longrightarrow> classify x \<noteq> Extend ys"
  by (cases x) (auto simp: Let_def split: option.splits)

lemma first_nested_moves_back:
  "is_sequence s \<Longrightarrow> list_all (\<lambda>x. \<not> is_sequence x) xs \<Longrightarrow>
   normalize_loop (xs @ s # zs) acc = normalize_loop (xs @ zs @ elements s) acc"
proof (induction xs arbitrary: acc)
  case Nil
  then show ?case by (simp add: classify_sequence)
next
  case (Cons x xs)
  then show ?case
    by (cases "classify x") (auto simp: classify_not_sequence)
qed

lemma nested_tail_flattens:
  "normalize_loop (map PList yss @ q) acc = normalize_loop (q @ concat yss) acc"
  by (induction yss arbitrary: q) auto

lemma trailing_nested:
  "list_all (\<lambda>x. \<not> is_sequence x) xs \<Longrightarrow>
   normalize_loop (xs @ map PList yss) acc = normalize_loop (xs @ concat yss) acc"
proof (induction xs arbitrary: acc)
  case Nil
  then show ?case using nested_tail_flattens[of yss "[]" acc] by simp
next
  case (Cons x xs)
  then show ?case
    by (cases "classify x") (auto simp: classify_not_sequence)
qed

text \<open>
  Claim C1, as stated: the output on a nested sequence equals the output on the
  left-to-right pre-flattened sequence, as in
  \<open>normalize_chat_messages([a, [b, c], d]) == normalize_chat_messages([a, b, c, d])\<close>.
  The queue is first-in first-out and a nested sequence's elements are pushed to its
  back, so on texts \<open>a, b, c, d\<close> the nested input yields the order \<open>a, d, b, c\<close>.
\<close>

theorem normalize_nested_order_counterexample:
  "normalize_chat_messages (PList [PStr ''a'', PList [PStr ''b'', PStr ''c''], PStr ''d''])
   \<noteq> normalize_chat_messages (PList [PStr ''a'', PStr ''b'', PStr ''c'', PStr ''d''])"
  by (simp add: normalize_chat_messages_def)

text \<open>
  Claim C1, amended: expansion is breadth-first. In a sequence whose elements before its
  first nested sequence \<open>s\<close> are \<open>xs\<close> and whose elements after it are \<open>zs\<close>, the elements of
  \<open>s\<close> are handled after \<open>zs\<close>: the output (or error) is that of the sequence
  \<open>xs @ zs @ elements s\<close>. The output equals that of the left-to-right pre-flattened
  sequence when the nested sequences are the last elements of the input.
\<close>

theorem normalize_breadth_first:
  assumes "list_all (\<lambda>x. \<not> is_sequence x) xs"
  shows "(is_sequence s \<longrightarrow>
            normalize_chat_messages (PList (xs @ s # zs)) =
            normalize_chat_messages (PList (xs @ zs @ elements s))) \<and>
         normalize_chat_messages (PList (xs @ map PList yss)) =
         normalize_chat_messages (PList (xs @ concat yss))"
  using assms first_nested_moves_back[of s xs zs "[]"] trailing_nested[of xs yss "[]"]
  by (simp add: normalize_chat_messages_def)

theorem normalize_breadth_first_witness:
  "normalize_chat_messages (PList [PStr ''a'', PList [PStr ''b'', PStr ''c''], PStr ''d'']) =
   normalize_chat_messages (PList [PStr ''a'', PStr ''d'', PStr ''b'', PStr ''c'']) \<and>
   normalize_chat_messages (PList [PStr ''a'', PList [PStr ''b'', PStr ''c'']]) =
   normalize_chat_messages (PList [PStr ''a'', PStr ''b'', PStr ''c''])"
  using normalize_breadth_first[of "[PStr ''a'']" "PList [PStr ''b'', PStr ''c'']"
      "[PStr ''d'']" "[[PStr ''b'', PStr ''c'']]"]
  by simp

subsection \<open>Errors\<close>

text \<open>
  Claim C4. A mapping whose role is not one of user, assistant, tool, system fails with
  InvalidRole, and no error other than InvalidRole and UnsupportedFormat is raised. The
  role is tested by membership in a set, which hashes it first: for the mapping
  \<open>{"role": ["user"], "content": "x"}\<close> the test itself raises \<open>TypeError\<close>
  (unhashable type: list) before the InvalidRole error can be built.
\<close>

theorem normalize_unhashable_role:
  "normalize_chat_messages (PDict [(''role'', PList [PStr ''user'']), (''content'', PStr ''x'')])
   = Inl (TypeError ''list'')"
  by (simp add: normalize_chat_messages_def)

text \<open>
  For the other inputs the errors are as described: a mapping whose role can be hashed
  and is not one of the four roles, or that has no role, fails with InvalidRole; a
  value that is neither text, message object, mapping nor sequence fails with
  UnsupportedFormat; text, message objects and mappings with one of the four roles
  yield one message.
\<close>

lemma normalize_chat_messages_single:
  "normalize_chat_messages v =
     (case classify v of
        Append m \<Rightarrow> Inr [m]
      | Extend xs \<Rightarrow> normalize_loop xs []
      | Raise e \<Rightarrow> Inl e)"
  by (simp add: normalize_chat_messages_def split: action.splits)

lemma normalize_invalid_role:
  assumes "unhashable (case map_of msg ''role'' of None \<Rightarrow> PNone | Some r \<Rightarrow> r) = None"
    and "(case map_of msg ''role'' of None \<Rightarrow> PNone | Some r \<Rightarrow> r) \<notin> set roles"
  shows "normalize_chat_messages (PDict msg) =
           Inl (InvalidRole (case map_of msg ''role'' of None \<Rightarrow> PNone | Some r \<Rightarrow> r))"
  using assms by (simp add: normalize_chat_messages_single Let_def)

lemma normalize_valid_role:
  assumes "map_of msg ''role'' = Some r" and "r \<in> set roles"
  shows "normalize_chat_messages (PDict msg) = Inr [PDict msg]"
  using assms by (auto simp: normalize_chat_messages_single Let_def roles_def)

lemma normalize_unsupported_format:
  "normalize_chat_messages PNone = Inl (UnsupportedFormat ''NoneType'')"
  "normalize_chat_messages (PBool b) = Inl (UnsupportedFormat ''bool'')"
  "normalize_chat_messages (PInt i) = Inl (UnsupportedFormat ''int'')"
  "normalize_chat_messages (PFloat q) = Inl (UnsupportedFormat ''float'')"
  by (simp_all add: normalize_chat_messages_single)

lemma normalize_text:
  "normalize_chat_messages (PStr s) = Inr [PDict [(''role'', PStr ''user''), (''content'', PStr s)]]"
  by (simp add: normalize_chat_messages_single)

section \<open>Request normalizer: \<open>process_params\<close>\<close>

type_synonym dict = "(string \<times> pyval) list"

text \<open>
  The collaborators \<open>ToolHelper.format_tool\<close> and \<open>StructureHandler.generate_request\<close> are
  not in the sources: they are parameters, and each may fail. \<open>format_tools\<close> is the list
  comprehension over the tools: the collaborator is called on each tool in turn and its
  first error ends the comprehension. The first component of the result lists the tools
  the collaborator was called on, in call order.
\<close>

fun format_tools ::
  "(pyval \<Rightarrow> string \<Rightarrow> error + pyval) \<Rightarrow> string \<Rightarrow> pyval list \<Rightarrow>
   pyval list \<times> (error + pyval list)"
where
  "format_tools format_tool llm_provider [] = ([], Inr [])"
| "format_tools format_tool llm_provider (tool # tools) =
     (case format_tool tool llm_provider of
        Inl e \<Rightarrow> ([tool], Inl e)
      | Inr v \<Rightarrow>
          (case format_tools format_tool llm_provider tools of
             (called, Inl e) \<Rightarrow> (tool # called, Inl e)
           | (called, Inr vs) \<Rightarrow> (tool # called, Inr (v # vs))))"

text \<open>
  What a call leaves behind: the collaborator calls made for the tools, the log lines, the
  caller's mapping object \<open>params\<close> as the call left it (the tools entry is assigned in
  place), and the value returned or the error raised. A mapping keeps its insertion
  order: assigning an existing key keeps the key's position, a new key goes last.
\<close>

record outcome =
  called :: "pyval list"
  logged :: "string list"
  params_object :: dict
  returned :: "error + dict"

definition process_params ::
  "(pyval \<Rightarrow> string \<Rightarrow> error + pyval) \<Rightarrow> ('r \<Rightarrow> string \<Rightarrow> dict \<Rightarrow> error + dict) \<Rightarrow>
   dict \<Rightarrow> string \<Rightarrow> pyval list option \<Rightarrow> 'r option \<Rightarrow> outcome"
where
  "process_params format_tool generate_request params llm_provider tools response_model =
     (let s =
        (case tools of
           Some (tool # rest) \<Rightarrow>
             (case format_tools format_tool llm_provider (tool # rest) of
                (cs, Inl e) \<Rightarrow>
                  \<lparr>called = cs, logged = [''Tools are available in the request.''],
                   params_object = params, returned = Inl e\<rparr>
              | (cs, Inr vs) \<Rightarrow>
                  \<lparr>called = cs, logged = [''Tools are available in the request.''],
                   params_object = AList.update ''tools'' (PList vs) params,
                   returned = Inr (AList.update ''tools'' (PList vs) params)\<rparr>)
         | _ \<Rightarrow> \<lparr>called = [], logged = [], params_object = params, returned = Inr params\<rparr>)
      in case (returned s, response_model) of
           (Inr p, Some r) \<Rightarrow>
             s\<lparr>logged := logged s @
                  [''A response model has been passed to structure the response of the LLM.''],
               returned :=
                 (if ''response_model'' \<in> fst ` set p \<or> ''llm_provider'' \<in> fst ` set p
                  then Inl (TypeError ''multiple values for keyword argument'')
                  else generate_request r llm_provider p)\<rparr>
         | _ \<Rightarrow> s)"

lemma format_tools_ok:
  "map (\<lambda>t. format_tool t llm_provider) ts = map Inr vs \<Longrightarrow>
   format_tools format_tool llm_provider ts = (ts, Inr vs)"
proof (induction ts arbitrary: vs)
  case Nil
  then show ?case by simp
next
  case (Cons t ts)
  then obtain v vs' where vs: "vs = v # vs'" by (cases vs) auto
  with Cons show ?case by simp
qed

lemma process_params_no_tools:
  "tls = None \<or> tls = Some [] \<Longrightarrow>
   process_params format_tool generate_request params llm_provider tls None =
     \<lparr>called = [], logged = [], params_object = params, returned = Inr params\<rparr> \<and>
   params_object (process_params format_tool generate_request params llm_provider tls rm) = params \<and>
   called (process_params format_tool generate_request params llm_provider tls rm) = []"
  by (auto simp: process_params_def Let_def split: option.splits)

lemma process_params_with_tools:
  assumes "ts \<noteq> []" and "map (\<lambda>t. format_tool t llm_provider) ts = map Inr vs"
  shows "params_object (process_params format_tool generate_request params llm_provider (Some ts) rm)
           = AList.update ''tools'' (PList vs) params"
    and "called (process_params format_tool generate_request params llm_provider (Some ts) rm) = ts"
    and "returned (process_params format_tool generate_request params llm_provider (Some ts) None)
           = Inr (AList.update ''tools'' (PList vs) params)"
proof -
  from assms(1) obtain t ts' where ts: "ts = t # ts'" by (cases ts) auto
  have ft: "format_tools format_tool llm_provider (t # ts') = (t # ts', Inr vs)"
    using format_tools_ok[of format_tool llm_provider ts vs] assms(2) ts by simp
  show "params_object (process_params format_tool generate_request params llm_provider (Some ts) rm)
           = AList.update ''tools'' (PList vs) params"
    unfolding process_params_def ts list.case option.case ft
    by (simp add: Let_def split: option.splits)
  show "called (process_params format_tool generate_request params llm_provider (Some ts) rm) = ts"
    unfolding process_params_def ts list.case option.case ft
    by (simp add: Let_def split: option.splits)
  show "returned (process_params format_tool generate_request params llm_provider (Some ts) None)
           = Inr (AList.update ''tools'' (PList vs) params)"
    unfolding process_params_def ts list.case option.case ft
    by (simp add: Let_def)
qed

text \<open>
  Claim C7. For a non-empty tools list on which the collaborator succeeds, with results
  \<open>vs\<close>, \<open>process_params\<close> makes one collaborator call per tool, in the order of the list,
  and assigns \<open>params["tools"]\<close> the list of results in that order, in place in the
  caller's mapping; without a response model this mapping is what is returned. When
  tools is absent or empty, the collaborator is not called and the mapping is left as it
  was, so no tools entry is written.
\<close>

theorem process_params_tools:
  "(ts \<noteq> [] \<and> map (\<lambda>t. format_tool t llm_provider) ts = map Inr vs \<longrightarrow>
      params_object (process_params format_tool generate_request params llm_provider (Some ts) rm)
        = AList.update ''tools'' (PList vs) params \<and>
      map_of (params_object
          (process_params format_tool generate_request params llm_provider (Some ts) rm)) ''tools''
        = Some (PList vs) \<and>
      called (process_params format_tool generate_request params llm_provider (Some ts) rm) = ts \<and>
      returned (process_params format_tool generate_request params llm_provider (Some ts) None)
        = Inr (AList.update ''tools'' (PList vs) params)) \<and>
   (tls = None \<or> tls = Some [] \<longrightarrow>
      params_object (process_params format_tool generate_request params llm_provider tls rm)
        = params \<and>
      called (process_params format_tool generate_request params llm_provider tls rm) = [] \<and>
      returned (process_params format_tool generate_request params llm_provider tls None)
        = Inr params)"
  using process_params_with_tools(1)[of ts format_tool llm_provider vs generate_request params rm]
    process_params_with_tools(2)[of ts format_tool llm_provider vs generate_request params rm]
    process_params_with_tools(3)[of ts format_tool llm_provider vs generate_request params]
    process_params_no_tools[of tls format_tool generate_request params llm_provider rm]
  by (auto simp: update_conv')

theorem process_params_tools_witness:
  "params_object (process_params (\<lambda>t p. Inr (PDict [(''type'', PStr p), (''function'', t)]))
      (\<lambda>(r::unit) p d. Inr d) [] ''openai'' (Some [PStr ''t1'', PStr ''t2'']) None)
   = [(''tools'', PList [PDict [(''type'', PStr ''openai''), (''function'', PStr ''t1'')],
                         PDict [(''type'', PStr ''openai''), (''function'', PStr ''t2'')]])] \<and>
   called (process_params (\<lambda>t p. Inr (PDict [(''type'', PStr p), (''function'', t)]))
      (\<lambda>(r::unit) p d. Inr d) [] ''openai'' (Some [PStr ''t1'', PStr ''t2'']) None)
   = [PStr ''t1'', PStr ''t2''] \<and>
   params_object (process_params (\<lambda>t p. Inr (PDict [(''type'', PStr p), (''function'', t)]))
      (\<lambda>(r::unit) p d. Inr d) [(''temperature'', PInt 1)] ''openai'' (Some []) None)
   = [(''temperature'', PInt 1)]"
  using process_params_tools[where ts = "[PStr ''t1'', PStr ''t2'']"
      and format_tool = "\<lambda>t p. Inr (PDict [(''type'', PStr p), (''function'', t)])"
      and llm_provider = "''openai''"
      and vs = "[PDict [(''type'', PStr ''openai''), (''function'', PStr ''t1'')],
                 PDict [(''type'', PStr ''openai''), (''function'', PStr ''t2'')]]"
      and generate_request = "\<lambda>(r::unit) p d. Inr d" and params = "[]" and rm = None
      and tls = "Some []"]
    process_params_tools[where ts = "[]"
      and format_tool = "\<lambda>t p. Inr (PDict [(''type'', PStr p), (''function'', t)])"
      and llm_provider = "''openai''" and vs = "[]"
      and generate_request = "\<lambda>(r::unit) p d. Inr d"
      and params = "[(''temperature'', PInt 1)]" and rm = None and tls = "Some []"]
  by simp


section \<open>Configuration schema\<close>

subsection \<open>Field validation\<close>

text \<open>
  The records are validated by the schema library, which is not part of the sources. What
  the sources fix is modelled here: the declared type of each field, its default, its
  bounds, and the validator \<open>none_to_default\<close> that every record runs on every field before
  the field's own validation. A value of the declared type is accepted as it is. For a
  value of another type the library may still convert in its lax mode (a numeric text
  for an \<open>int\<close> field, an \<open>int\<close> rounded to the nearest float for a \<open>float\<close> field,
  a tuple for a list field) or refuse it with an error of some kind; these conversions
  and the kinds of their errors are a parameter.
\<close>

record lax =
  lax_int :: "pyval \<Rightarrow> string + int"
  lax_float :: "pyval \<Rightarrow> string + rat"
  lax_bool :: "pyval \<Rightarrow> string + bool"
  lax_list :: "pyval \<Rightarrow> string + pyval list"

text \<open>The instance of the parameter that converts nothing.\<close>

definition strict :: lax where
  "strict = \<lparr>lax_int = (\<lambda>v. Inl ''int_type''), lax_float = (\<lambda>v. Inl ''float_type''),
             lax_bool = (\<lambda>v. Inl ''bool_type''), lax_list = (\<lambda>v. Inl ''list_type'')\<rparr>"

definition as_int :: "lax \<Rightarrow> pyval \<Rightarrow> string + int" where
  "as_int L v = (case v of PInt i \<Rightarrow> Inr i | _ \<Rightarrow> lax_int L v)"

definition as_float :: "lax \<Rightarrow> pyval \<Rightarrow> string + rat" where
  "as_float L v = (case v of PFloat q \<Rightarrow> Inr q | _ \<Rightarrow> lax_float L v)"

definition as_bool :: "lax \<Rightarrow> pyval \<Rightarrow> string + bool" where
  "as_bool L v = (case v of PBool b \<Rightarrow> Inr b | _ \<Rightarrow> lax_bool L v)"

definition as_list :: "lax \<Rightarrow> pyval \<Rightarrow> string + pyval list" where
  "as_list L v = (case v of PList xs \<Rightarrow> Inr xs | _ \<Rightarrow> lax_list L v)"

text \<open>
  A validator returns the validated value or the kinds of the errors found. \<open>ge\<close> and
  \<open>le\<close> are the bounds of \<open>Field(..., ge=, le=)\<close>, \<open>max_length\<close> that of
  \<open>Field(..., max_length=)\<close>.
\<close>

definition any_validator :: "pyval \<Rightarrow> string list + pyval" where
  "any_validator v = Inr v"

definition str_validator :: "pyval \<Rightarrow> string list + string" where
  "str_validator v = (case v of PStr s \<Rightarrow> Inr s | _ \<Rightarrow> Inl [''string_type''])"

definition bool_validator :: "lax \<Rightarrow> pyval \<Rightarrow> string list + bool" where
  "bool_validator L v = (case as_bool L v of Inr b \<Rightarrow> Inr b | Inl k \<Rightarrow> Inl [k])"

definition int_validator :: "lax \<Rightarrow> int option \<Rightarrow> int option \<Rightarrow> pyval \<Rightarrow> string list + int" where
  "int_validator L ge le v =
     (case as_int L v of
        Inl k \<Rightarrow> Inl [k]
      | Inr i \<Rightarrow>
          if (case ge of Some b \<Rightarrow> i < b | None \<Rightarrow> False) then Inl [''greater_than_equal'']
          else if (case le of Some b \<Rightarrow> b < i | None \<Rightarrow> False) then Inl [''less_than_equal'']
          else Inr i)"

definition float_validator :: "lax \<Rightarrow> rat option \<Rightarrow> rat option \<Rightarrow> pyval \<Rightarrow> string list + rat" where
  "float_validator L ge le v =
     (case as_float L v of
        Inl k \<Rightarrow> Inl [k]
      | Inr q \<Rightarrow>
          if (case ge of Some b \<Rightarrow> q < b | None \<Rightarrow> False) then Inl [''greater_than_equal'']
          else if (case le of Some b \<Rightarrow> b < q | None \<Rightarrow> False) then Inl [''less_than_equal'']
          else Inr q)"

definition literal_validator :: "string list \<Rightarrow> pyval \<Rightarrow> string list + string" where
  "literal_validator allowed v =
     (case v of
        PStr s \<Rightarrow> if s \<in> set allowed then Inr s else Inl [''literal_error'']
      | _ \<Rightarrow> Inl [''literal_error''])"

definition dict_validator :: "pyval \<Rightarrow> string list + dict" where
  "dict_validator v = (case v of PDict d \<Rightarrow> Inr d | _ \<Rightarrow> Inl [''dict_type''])"

fun all_valid :: "('a \<Rightarrow> string list + 'b) \<Rightarrow> 'a list \<Rightarrow> string list + 'b list" where
  "all_valid val [] = Inr []"
| "all_valid val (x # xs) =
     (case (val x, all_valid val xs) of
        (Inr y, Inr ys) \<Rightarrow> Inr (y # ys)
      | (Inl es, Inr ys) \<Rightarrow> Inl es
      | (Inr y, Inl es) \<Rightarrow> Inl es
      | (Inl es, Inl es') \<Rightarrow> Inl (es @ es'))"

definition list_validator ::
  "lax \<Rightarrow> nat option \<Rightarrow> (pyval \<Rightarrow> string list + 'a) \<Rightarrow> pyval \<Rightarrow> string list + 'a list"
where
  "list_validator L max_length val v =
     (case as_list L v of
        Inl k \<Rightarrow> Inl [k]
      | Inr xs \<Rightarrow>
          if (case max_length of Some m \<Rightarrow> m < length xs | None \<Rightarrow> False)
          then Inl [''too_long'']
          else all_valid val xs)"

definition entry_validator ::
  "(string \<Rightarrow> string list + 'k) \<Rightarrow> (pyval \<Rightarrow> string list + 'v) \<Rightarrow> string \<times> pyval \<Rightarrow>
   string list + 'k \<times> 'v"
where
  "entry_validator kval vval e =
     (case (kval (fst e), vval (snd e)) of
        (Inr k, Inr x) \<Rightarrow> Inr (k, x)
      | (Inl es, Inr x) \<Rightarrow> Inl es
      | (Inr k, Inl es) \<Rightarrow> Inl es
      | (Inl es, Inl es') \<Rightarrow> Inl (es @ es'))"

definition dict_of_validator ::
  "(string \<Rightarrow> string list + 'k) \<Rightarrow> (pyval \<Rightarrow> string list + 'v) \<Rightarrow> pyval \<Rightarrow>
   string list + ('k \<times> 'v) list"
where
  "dict_of_validator kval vval v =
     (case v of
        PDict d \<Rightarrow> all_valid (entry_validator kval vval) d
      | _ \<Rightarrow> Inl [''dict_type''])"

datatype str_or_bool = Str string | Bool bool
datatype stop_sequences = StopStr string | StopList "string list"
datatype str_or_dict = ChoiceStr string | ChoiceDict dict

definition str_or_bool_validator :: "lax \<Rightarrow> pyval \<Rightarrow> string list + str_or_bool" where
  "str_or_bool_validator L v =
     (case v of
        PStr s \<Rightarrow> Inr (Str s)
      | _ \<Rightarrow>
          (case as_bool L v of
             Inr b \<Rightarrow> Inr (Bool b)
           | Inl k \<Rightarrow> Inl [''string_type'', k]))"

definition stop_validator :: "lax \<Rightarrow> pyval \<Rightarrow> string list + stop_sequences" where
  "stop_validator L v =
     (case v of
        PStr s \<Rightarrow> Inr (StopStr s)
      | _ \<Rightarrow>
          (case list_validator L None str_validator v of
             Inr xs \<Rightarrow> Inr (StopList xs)
           | Inl es \<Rightarrow> Inl (''string_type'' # es)))"

definition str_or_dict_validator :: "pyval \<Rightarrow> string list + str_or_dict" where
  "str_or_dict_validator v =
     (case v of
        PStr s \<Rightarrow> Inr (ChoiceStr s)
      | PDict d \<Rightarrow> Inr (ChoiceDict d)
      | _ \<Rightarrow> Inl [''string_type'', ''dict_type''])"

text \<open>
  A field annotated \<open>Optional[T]\<close>: \<open>None\<close> never reaches the field's own validation,
  because \<open>none_to_default\<close> runs first, so what is validated is a \<open>T\<close>.
\<close>

definition optional :: "(pyval \<Rightarrow> string list + 'a) \<Rightarrow> pyval \<Rightarrow> string list + 'a option" where
  "optional val v = (case val v of Inl es \<Rightarrow> Inl es | Inr x \<Rightarrow> Inr (Some x))"

text \<open>
  One field of a record built from the mapping \<open>d\<close>. A key that is missing takes the
  declared default (\<open>dflt = None\<close> is a field without one: the field is required). A
  value that is \<open>None\<close> makes \<open>none_to_default\<close> raise \<open>PydanticUseDefault\<close>: the field
  takes its default, and where there is none the library reports the uncaught signal.
  Any other value is returned by \<open>none_to_default\<close> and validated against the field's
  type and bounds.
\<close>

definition field ::
  "string \<Rightarrow> 'a option \<Rightarrow> (pyval \<Rightarrow> string list + 'a) \<Rightarrow> dict \<Rightarrow> error + 'a"
where
  "field name dflt val d =
     (case map_of d name of
        None \<Rightarrow>
          (case dflt of
             Some x \<Rightarrow> Inr x
           | None \<Rightarrow> Inl (SchemaValidationError [(name, ''missing'')]))
      | Some PNone \<Rightarrow> (case dflt of Some x \<Rightarrow> Inr x | None \<Rightarrow> Inl UncaughtUseDefault)
      | Some v \<Rightarrow>
          (case val v of
             Inl es \<Rightarrow> Inl (SchemaValidationError (map (Pair name) es))
           | Inr x \<Rightarrow> Inr x))"

text \<open>
  A field declared with \<open>validate_default=True\<close>: the default (not \<open>None\<close>) goes through
  the validators like a given value.
\<close>

definition field_validate_default ::
  "string \<Rightarrow> pyval \<Rightarrow> (pyval \<Rightarrow> string list + 'a) \<Rightarrow> dict \<Rightarrow> error + 'a"
where
  "field_validate_default name dflt val d =
     (case val (case map_of d name of None \<Rightarrow> dflt | Some PNone \<Rightarrow> dflt | Some v \<Rightarrow> v) of
        Inl es \<Rightarrow> Inl (SchemaValidationError (map (Pair name) es))
      | Inr x \<Rightarrow> Inr x)"

text \<open>
  The fields of a record are validated in the order of their declaration. The errors of
  the fields are collected into one \<open>SchemaValidationError\<close>; any other error ends the
  validation at once.
\<close>

fun next_field :: "error + ('a \<Rightarrow> 'b) \<Rightarrow> error + 'a \<Rightarrow> error + 'b" where
  "next_field (Inr f) (Inr x) = Inr (f x)"
| "next_field (Inr f) (Inl e) = Inl e"
| "next_field (Inl (SchemaValidationError es)) (Inl (SchemaValidationError es')) =
     Inl (SchemaValidationError (es @ es'))"
| "next_field (Inl (SchemaValidationError es)) (Inl e) = Inl e"
| "next_field (Inl (SchemaValidationError es)) (Inr x) = Inl (SchemaValidationError es)"
| "next_field (Inl e) x = Inl e"

text \<open>
  What \<open>model_dump\<close> writes for a field. A value held under the annotation \<open>Any\<close> is
  serialized by what it is: a model object becomes the mapping of its fields, and the
  elements of sequences and the values of mappings are serialized in turn.
\<close>

primrec dump_any :: "pyval \<Rightarrow> pyval" where
  "dump_any PNone = PNone"
| "dump_any (PBool b) = PBool b"
| "dump_any (PInt i) = PInt i"
| "dump_any (PFloat q) = PFloat q"
| "dump_any (PStr s) = PStr s"
| "dump_any (PList xs) = PList (map dump_any xs)"
| "dump_any (PTuple xs) = PTuple (map dump_any xs)"
| "dump_any (PDict d) = PDict (map (map_prod id dump_any) d)"
| "dump_any (PMessage fs) = PDict (map (map_prod id dump_any) fs)"

text \<open>A value that holds no model object is serialized to itself.\<close>

definition plain :: "pyval \<Rightarrow> bool" where
  "plain v \<longleftrightarrow> dump_any v = v"

definition any_dict_dump :: "dict \<Rightarrow> pyval" where
  "any_dict_dump d = dump_any (PDict d)"

definition opt_dump :: "('a \<Rightarrow> pyval) \<Rightarrow> 'a option \<Rightarrow> pyval" where
  "opt_dump enc x = (case x of None \<Rightarrow> PNone | Some y \<Rightarrow> enc y)"

fun str_or_bool_dump :: "str_or_bool \<Rightarrow> pyval" where
  "str_or_bool_dump (Str s) = PStr s"
| "str_or_bool_dump (Bool b) = PBool b"

fun stop_dump :: "stop_sequences \<Rightarrow> pyval" where
  "stop_dump (StopStr s) = PStr s"
| "stop_dump (StopList xs) = PList (map PStr xs)"

fun str_or_dict_dump :: "str_or_dict \<Rightarrow> pyval" where
  "str_or_dict_dump (ChoiceStr s) = PStr s"
| "str_or_dict_dump (ChoiceDict d) = any_dict_dump d"

text \<open>The free-form values of a field hold no model object.\<close>

fun plain_choice :: "str_or_dict \<Rightarrow> bool" where
  "plain_choice (ChoiceStr s) = True"
| "plain_choice (ChoiceDict d) = plain (PDict d)"

definition plain_dicts :: "dict list \<Rightarrow> bool" where
  "plain_dicts ds = list_all (\<lambda>d. plain (PDict d)) ds"

definition dict_dump :: "('v \<Rightarrow> pyval) \<Rightarrow> (string \<times> 'v) list \<Rightarrow> pyval" where
  "dict_dump enc d = PDict (map (\<lambda>e. (fst e, enc (snd e))) d)"

definition list_dump :: "('a \<Rightarrow> pyval) \<Rightarrow> 'a list \<Rightarrow> pyval" where
  "list_dump enc xs = PList (map enc xs)"


subsection \<open>Facts about field validation\<close>

lemma next_field_Inr:
  "next_field f x = Inr y \<longleftrightarrow> (\<exists>g a. f = Inr g \<and> x = Inr a \<and> y = g a)"
  by (cases "(f, x)" rule: next_field.cases) auto

lemma next_field_InrE:
  assumes "next_field f x = Inr y"
  obtains g a where "f = Inr g" "x = Inr a" "y = g a"
  using assms by (auto simp: next_field_Inr)

lemma field_sentinel:
  "map_of d name = Some PNone \<Longrightarrow> field name (Some x) val d = Inr x"
  by (simp add: field_def)

lemma field_missing:
  "map_of d name = None \<Longrightarrow> field name (Some x) val d = Inr x"
  by (simp add: field_def)

lemma field_given:
  "map_of d name = Some v \<Longrightarrow> v \<noteq> PNone \<Longrightarrow>
   field name dflt val d =
     (case val v of
        Inl es \<Rightarrow> Inl (SchemaValidationError (map (Pair name) es))
      | Inr x \<Rightarrow> Inr x)"
  by (cases v) (simp_all add: field_def)

lemma field_Inr_cases:
  assumes "field name dflt val d = Inr x"
  obtains "dflt = Some x" "map_of d name = None \<or> map_of d name = Some PNone"
  | v where "map_of d name = Some v" "v \<noteq> PNone" "val v = Inr x"
proof (cases "map_of d name")
  case None
  with assms that(1) show ?thesis
    by (auto simp: field_def split: option.splits)
next
  case (Some v)
  show ?thesis
  proof (cases "v = PNone")
    case True
    with Some assms that(1) show ?thesis
      by (auto simp: field_def split: option.splits)
  next
    case False
    with Some assms that(2) show ?thesis
      by (auto simp: field_given split: sum.splits)
  qed
qed

lemma validate_written [simp]:
  "str_validator (PStr s) = Inr s"
  "bool_validator L (PBool b) = Inr b"
  "literal_validator allowed (PStr s) = (if s \<in> set allowed then Inr s else Inl [''literal_error''])"
  "int_validator L ge le (PInt i) =
     (if (case ge of Some b \<Rightarrow> i < b | None \<Rightarrow> False) then Inl [''greater_than_equal'']
      else if (case le of Some b \<Rightarrow> b < i | None \<Rightarrow> False) then Inl [''less_than_equal'']
      else Inr i)"
  "float_validator L lo hi (PFloat q) =
     (if (case lo of Some b \<Rightarrow> q < b | None \<Rightarrow> False) then Inl [''greater_than_equal'']
      else if (case hi of Some b \<Rightarrow> b < q | None \<Rightarrow> False) then Inl [''less_than_equal'']
      else Inr q)"
  by (simp_all add: str_validator_def bool_validator_def literal_validator_def int_validator_def
      float_validator_def as_bool_def as_int_def as_float_def)

text \<open>
  A validator is idempotent for a way of writing its values back when it accepts what
  it wrote for a value it produced, and returns that value.
\<close>

definition idem :: "(pyval \<Rightarrow> string list + 'a) \<Rightarrow> ('a \<Rightarrow> pyval) \<Rightarrow> bool" where
  "idem val enc \<longleftrightarrow>
     (\<forall>v y. v \<noteq> PNone \<longrightarrow> val v = Inr y \<longrightarrow> enc y \<noteq> PNone \<and> val (enc y) = Inr y)"

lemma idemD: "idem val enc \<Longrightarrow> v \<noteq> PNone \<Longrightarrow> val v = Inr y \<Longrightarrow> enc y \<noteq> PNone \<and> val (enc y) = Inr y"
  by (simp add: idem_def)

lemma idem_str: "idem str_validator PStr"
  by (auto simp: idem_def str_validator_def split: pyval.splits)

lemma idem_literal: "idem (literal_validator allowed) PStr"
  by (auto simp: idem_def literal_validator_def split: pyval.splits if_splits)

lemma idem_bool: "idem (bool_validator L) PBool"
  by (auto simp: idem_def bool_validator_def as_bool_def split: sum.splits)

lemma idem_int: "idem (int_validator L ge le) PInt"
  by (auto simp: idem_def int_validator_def as_int_def split: sum.splits if_splits)

lemma idem_float: "idem (float_validator L ge le) PFloat"
  by (auto simp: idem_def float_validator_def as_float_def split: sum.splits if_splits)

lemma idem_str_or_bool: "idem (str_or_bool_validator L) str_or_bool_dump"
  by (auto simp: idem_def str_or_bool_validator_def as_bool_def split: pyval.splits sum.splits)

lemma all_valid_InrD: "all_valid val xs = Inr ys \<Longrightarrow> map val xs = map Inr ys"
  by (induction xs arbitrary: ys) (auto split: sum.splits)

lemma all_valid_InrI: "map val xs = map Inr ys \<Longrightarrow> all_valid val xs = Inr ys"
proof (induction xs arbitrary: ys)
  case Nil
  then show ?case by simp
next
  case (Cons x xs)
  then obtain y ys' where ys: "ys = y # ys'" by (cases ys) auto
  with Cons.prems have "val x = Inr y" "map val xs = map Inr ys'" by simp_all
  with Cons.IH[of ys'] ys show ?case by simp
qed

lemma all_valid_Inr: "all_valid val xs = Inr ys \<longleftrightarrow> map val xs = map Inr ys"
  using all_valid_InrD all_valid_InrI by blast

lemma all_valid_idem:
  assumes "all_valid val xs = Inr ys"
    and "\<And>x y. x \<in> set xs \<Longrightarrow> val x = Inr y \<Longrightarrow> val' (enc y) = Inr y"
  shows "all_valid val' (map enc ys) = Inr ys"
proof -
  from assms(1) have m: "map val xs = map Inr ys" by (simp add: all_valid_Inr)
  then have len: "length xs = length ys" by (metis length_map)
  have "map val' (map enc ys) = map Inr ys"
  proof (rule nth_equalityI)
    show "length (map val' (map enc ys)) = length (map Inr ys)" by simp
  next
    fix i assume "i < length (map val' (map enc ys))"
    then have i: "i < length ys" by simp
    with len m have "val (xs ! i) = Inr (ys ! i)"
      by (metis length_map nth_map)
    with assms(2)[of "xs ! i" "ys ! i"] i len have "val' (enc (ys ! i)) = Inr (ys ! i)"
      by simp
    with i show "map val' (map enc ys) ! i = map Inr ys ! i" by simp
  qed
  then show ?thesis by (simp add: all_valid_Inr)
qed

lemma all_valid_length: "all_valid val xs = Inr ys \<Longrightarrow> length ys = length xs"
  by (metis all_valid_Inr length_map)

lemma idem_list:
  assumes "\<And>x y. val x = Inr y \<Longrightarrow> val (enc y) = Inr y"
  shows "idem (list_validator L max_length val) (list_dump enc)"
  unfolding idem_def
proof (intro allI impI)
  fix v ys assume "v \<noteq> PNone" and ok: "list_validator L max_length val v = Inr ys"
  from ok obtain xs where xs: "as_list L v = Inr xs"
    and len: "\<not> (case max_length of Some m \<Rightarrow> m < length xs | None \<Rightarrow> False)"
    and av: "all_valid val xs = Inr ys"
    by (auto simp: list_validator_def split: sum.splits if_splits)
  have "all_valid val (map enc ys) = Inr ys"
    using all_valid_idem[OF av] assms by blast
  moreover have "length ys = length xs" using av by (rule all_valid_length)
  ultimately show "list_dump enc ys \<noteq> PNone \<and>
      list_validator L max_length val (list_dump enc ys) = Inr ys"
    using len by (cases max_length) (simp_all add: list_dump_def list_validator_def as_list_def)
qed

lemma idem_stop: "idem (stop_validator L) stop_dump"
  unfolding idem_def
proof (intro allI impI)
  fix v y assume "v \<noteq> PNone" and ok: "stop_validator L v = Inr y"
  show "stop_dump y \<noteq> PNone \<and> stop_validator L (stop_dump y) = Inr y"
  proof (cases y)
    case (StopStr s)
    then show ?thesis by (simp add: stop_validator_def)
  next
    case (StopList xs)
    with ok have "list_validator L None str_validator v = Inr xs"
      by (auto simp: stop_validator_def split: pyval.splits sum.splits)
    moreover have "idem (list_validator L None str_validator) (list_dump PStr)"
      by (rule idem_list) (auto simp: str_validator_def split: pyval.splits)
    ultimately have "list_validator L None str_validator (list_dump PStr xs) = Inr xs"
      using \<open>v \<noteq> PNone\<close> by (simp add: idem_def)
    with StopList show ?thesis
      by (simp add: stop_validator_def list_dump_def)
  qed
qed

lemma idem_dict_of:
  assumes "\<And>k k'. kval k = Inr k' \<Longrightarrow> k' = k"
    and "\<And>x y. vval x = Inr y \<Longrightarrow> vval (enc y) = Inr y"
  shows "idem (dict_of_validator kval vval) (dict_dump enc)"
  unfolding idem_def
proof (intro allI impI)
  fix v ys assume "v \<noteq> PNone" and ok: "dict_of_validator kval vval v = Inr ys"
  from ok obtain d where d: "v = PDict d" and av: "all_valid (entry_validator kval vval) d = Inr ys"
    by (auto simp: dict_of_validator_def split: pyval.splits)
  have "all_valid (entry_validator kval vval) (map (\<lambda>e. (fst e, enc (snd e))) ys) = Inr ys"
  proof (rule all_valid_idem[OF av])
    fix x y assume "x \<in> set d" and e: "entry_validator kval vval x = Inr y"
    then have "kval (fst x) = Inr (fst y)" and "vval (snd x) = Inr (snd y)"
      by (auto simp: entry_validator_def split: sum.splits)
    with assms have "kval (fst y) = Inr (fst y)" and "vval (enc (snd y)) = Inr (snd y)"
      by metis+
    then show "entry_validator kval vval (fst y, enc (snd y)) = Inr y"
      by (simp add: entry_validator_def)
  qed
  then show "dict_dump enc ys \<noteq> PNone \<and> dict_of_validator kval vval (dict_dump enc ys) = Inr ys"
    by (simp add: dict_dump_def dict_of_validator_def)
qed

lemma idem_str_dict: "idem (dict_of_validator Inr str_validator) (dict_dump PStr)"
  by (rule idem_dict_of) (auto simp: str_validator_def split: pyval.splits)

lemma idem_logit_bias: "idem (dict_of_validator Inr (float_validator L None None)) (dict_dump PFloat)"
  by (rule idem_dict_of)
     (auto simp: float_validator_def as_float_def split: sum.splits if_splits)

lemma idem_response_format:
  "idem (dict_of_validator (literal_validator ks \<circ> PStr) (literal_validator vs)) (dict_dump PStr)"
  by (rule idem_dict_of)
     (auto simp: literal_validator_def split: pyval.splits if_splits)

lemma idem_dicts: "idem (list_validator L max_length dict_validator) (list_dump PDict)"
  by (rule idem_list) (auto simp: dict_validator_def split: pyval.splits)

lemmas idems =
  idem_str idem_literal idem_bool idem_int idem_float idem_str_or_bool
  idem_stop idem_str_dict idem_logit_bias idem_response_format

text \<open>
  The validators of the fields that hold free-form values are idempotent on the values
  that hold no model object.
\<close>

definition idem_on ::
  "('a \<Rightarrow> bool) \<Rightarrow> (pyval \<Rightarrow> string list + 'a) \<Rightarrow> ('a \<Rightarrow> pyval) \<Rightarrow> bool"
where
  "idem_on P val enc \<longleftrightarrow>
     (\<forall>v y. v \<noteq> PNone \<longrightarrow> val v = Inr y \<longrightarrow> P y \<longrightarrow> enc y \<noteq> PNone \<and> val (enc y) = Inr y)"

lemma idem_on_any: "idem_on plain any_validator dump_any"
  by (auto simp: idem_on_def any_validator_def plain_def)

lemma idem_on_str_or_dict: "idem_on plain_choice str_or_dict_validator str_or_dict_dump"
  unfolding idem_on_def
proof (intro allI impI)
  fix v y assume "v \<noteq> PNone" "str_or_dict_validator v = Inr y" "plain_choice y"
  then show "str_or_dict_dump y \<noteq> PNone \<and> str_or_dict_validator (str_or_dict_dump y) = Inr y"
    by (cases y) (simp_all add: str_or_dict_validator_def any_dict_dump_def plain_def)
qed

lemma plain_dicts_dump: "plain_dicts ds \<Longrightarrow> list_dump any_dict_dump ds = list_dump PDict ds"
  by (induction ds) (simp_all add: plain_dicts_def list_dump_def any_dict_dump_def plain_def)

lemma idem_on_tools:
  "idem_on plain_dicts (list_validator L max_length dict_validator) (list_dump any_dict_dump)"
  using idem_dicts[of L max_length]
  by (auto simp: idem_on_def idem_def plain_dicts_dump)

lemmas idems_on = idem_on_any idem_on_str_or_dict idem_on_tools

text \<open>Writing a validated field back and validating it again returns the field.\<close>

lemma field_optional_roundtrip:
  assumes "field name (Some dflt) (optional val) d = Inr x"
    and "idem val enc"
    and "case dflt of None \<Rightarrow> True | Some y \<Rightarrow> enc y \<noteq> PNone \<and> val (enc y) = Inr y"
    and "map_of d' name = Some (opt_dump enc x)"
  shows "field name (Some dflt) (optional val) d' = Inr x"
  using assms(1)
proof (cases rule: field_Inr_cases)
  case 1
  then have "x = dflt" by simp
  with assms(3,4) show ?thesis
    by (cases dflt) (simp_all add: field_sentinel field_given opt_dump_def optional_def)
next
  case (2 v)
  then obtain y where y: "x = Some y" "val v = Inr y"
    by (auto simp: optional_def split: sum.splits)
  with idemD[OF assms(2) 2(2)] assms(4) show ?thesis
    by (simp add: field_given opt_dump_def optional_def)
qed

lemma field_required_roundtrip:
  assumes "field name None (optional val) d = Inr x"
    and "idem val enc"
    and "map_of d' name = Some (opt_dump enc x)"
  shows "field name None (optional val) d' = Inr x"
  using assms(1)
proof (cases rule: field_Inr_cases)
  case 1
  then show ?thesis by simp
next
  case (2 v)
  then obtain y where y: "x = Some y" "val v = Inr y"
    by (auto simp: optional_def split: sum.splits)
  with idemD[OF assms(2) 2(2)] assms(3) show ?thesis
    by (simp add: field_given opt_dump_def optional_def)
qed

lemma field_plain_roundtrip:
  assumes "field name (Some dflt) val d = Inr x"
    and "idem val enc"
    and "enc dflt \<noteq> PNone \<and> val (enc dflt) = Inr dflt"
    and "map_of d' name = Some (enc x)"
  shows "field name (Some dflt) val d' = Inr x"
  using assms(1)
proof (cases rule: field_Inr_cases)
  case 1
  with assms(3,4) show ?thesis by (simp add: field_given)
next
  case (2 v)
  with idemD[OF assms(2) 2(2)] assms(4) show ?thesis
    by (simp add: field_given)
qed

lemma field_validate_default_roundtrip:
  assumes "field_validate_default name dflt (optional val) d = Inr x"
    and "idem val enc"
    and "dflt \<noteq> PNone"
    and "map_of d' name = Some (opt_dump enc x)"
  shows "field_validate_default name dflt (optional val) d' = Inr x"
proof -
  from assms(1,3) obtain v y where "v \<noteq> PNone" "val v = Inr y" "x = Some y"
    by (auto simp: field_validate_default_def optional_def split: sum.splits option.splits pyval.splits)
  with idemD[OF assms(2), of v y] assms(4) show ?thesis
    by (cases "enc y") (simp_all add: field_validate_default_def opt_dump_def optional_def)
qed

lemma field_optional_roundtrip_on:
  assumes "field name (Some None) (optional val) d = Inr x"
    and "idem_on P val enc"
    and "case x of None \<Rightarrow> True | Some y \<Rightarrow> P y"
    and "map_of d' name = Some (opt_dump enc x)"
  shows "field name (Some None) (optional val) d' = Inr x"
  using assms(1)
proof (cases rule: field_Inr_cases)
  case 1
  then have "x = None" by simp
  with assms(4) show ?thesis
    by (simp add: field_sentinel opt_dump_def)
next
  case (2 v)
  then obtain y where y: "x = Some y" "val v = Inr y"
    by (auto simp: optional_def split: sum.splits)
  with assms(3) have "P y" by simp
  with assms(2) 2(2) y(2) have "enc y \<noteq> PNone \<and> val (enc y) = Inr y"
    by (simp add: idem_on_def)
  with y assms(4) show ?thesis
    by (simp add: field_given opt_dump_def optional_def)
qed

lemmas field_roundtrips =
  idems[THEN field_optional_roundtrip[rotated]] idems[THEN field_required_roundtrip[rotated]]
  idems[THEN field_plain_roundtrip[rotated]] idems[THEN field_validate_default_roundtrip[rotated]]
  idems_on[THEN field_optional_roundtrip_on[rotated]]


subsection \<open>The records\<close>

text \<open>
  Each record of the schema, with its constructor \<open>_init\<close> from a mapping of field
  values (the keyword arguments; keys that name no field are ignored) and \<open>_dump\<close>, the
  mapping that \<open>model_dump\<close> serializes it to. A constructor validates the fields in the
  order of their declaration, the inherited ones first, each with its declared default,
  type and bounds. A field annotated \<open>Optional[T]\<close> is an option; the keys of
  \<open>logit_bias\<close> are the text ones.
\<close>


record HFInferenceClientConfig =
  model :: "string option"
  api_key :: "str_or_bool option"
  token :: "str_or_bool option"
  base_url :: "string option"
  timeout :: "rat option"
  headers :: "(string \<times> string) list option"
  cookies :: "(string \<times> string) list option"
  proxies :: "pyval option"

record OpenAIClientConfig =
  base_url :: "string option"
  api_key :: "string option"
  organization :: "string option"
  project :: "string option"

record AzureOpenAIClientConfig =
  api_key :: "string option"
  azure_ad_token :: "string option"
  organization :: "string option"
  project :: "string option"
  api_version :: "string option"
  azure_endpoint :: "string option"
  azure_deployment :: "string option"
  azure_client_id :: "string option"

record OpenAIModelConfig = OpenAIClientConfig +
  type :: "string"
  name :: "string"

record AzureOpenAIModelConfig = AzureOpenAIClientConfig +
  type :: "string"

record HFHubModelConfig = HFInferenceClientConfig +
  type :: "string"

record OpenAIParamsBase =
  model :: "string option"
  temperature :: "rat option"
  max_tokens :: "int option"
  top_p :: "rat option"
  frequency_penalty :: "rat option"
  presence_penalty :: "rat option"
  stop :: "stop_sequences option"
  stream :: "bool option"

record OpenAITextCompletionParams = OpenAIParamsBase +
  best_of :: "int option"
  echo :: "bool option"
  logprobs :: "int option"
  suffix :: "string option"

record OpenAIChatCompletionParams = OpenAIParamsBase +
  logit_bias :: "(string \<times> rat) list option"
  logprobs :: "bool option"
  top_logprobs :: "int option"
  n :: "int option"
  response_format :: "(string \<times> string) list option"
  tools :: "dict list option"
  tool_choice :: "str_or_dict option"
  function_call :: "str_or_dict option"
  seed :: "int option"
  user :: "string option"


definition HFInferenceClientConfig_init :: "lax \<Rightarrow> dict \<Rightarrow> error + HFInferenceClientConfig" where
  "HFInferenceClientConfig_init L d =
     next_field (next_field (next_field (next_field (next_field (next_field (
     next_field (next_field
       (Inr HFInferenceClientConfig.make)
       (field ''model'' (Some None) (optional str_validator) d))
       (field ''api_key'' (Some None) (optional (str_or_bool_validator L)) d))
       (field ''token'' (Some None) (optional (str_or_bool_validator L)) d))
       (field ''base_url'' (Some None) (optional str_validator) d))
       (field ''timeout'' (Some None) (optional (float_validator L None None)) d))
       (field ''headers'' (Some None) (optional (dict_of_validator Inr str_validator)) d))
       (field ''cookies'' (Some None) (optional (dict_of_validator Inr str_validator)) d))
       (field ''proxies'' (Some None) (optional any_validator) d)"

definition OpenAIClientConfig_init :: "dict \<Rightarrow> error + OpenAIClientConfig" where
  "OpenAIClientConfig_init d =
     next_field (next_field (next_field (next_field
       (Inr OpenAIClientConfig.make)
       (field_validate_default ''base_url'' (PStr ''https://api.openai.com/v1'') (optional str_validator) d))
       (field ''api_key'' (Some None) (optional str_validator) d))
       (field ''organization'' (Some None) (optional str_validator) d))
       (field ''project'' (Some None) (optional str_validator) d)"

definition AzureOpenAIClientConfig_init :: "dict \<Rightarrow> error + AzureOpenAIClientConfig" where
  "AzureOpenAIClientConfig_init d =
     next_field (next_field (next_field (next_field (next_field (next_field (
     next_field (next_field
       (Inr AzureOpenAIClientConfig.make)
       (field ''api_key'' (Some None) (optional str_validator) d))
       (field ''azure_ad_token'' (Some None) (optional str_validator) d))
       (field ''organization'' (Some None) (optional str_validator) d))
       (field ''project'' (Some None) (optional str_validator) d))
       (field ''api_version'' (Some (Some ''2024-07-01-preview'')) (optional str_validator) d))
       (field ''azure_endpoint'' None (optional str_validator) d))
       (field ''azure_deployment'' (Some (Some ''gpt-4o'')) (optional str_validator) d))
       (field ''azure_client_id'' (Some None) (optional str_validator) d)"

definition OpenAIModelConfig_init :: "dict \<Rightarrow> error + OpenAIModelConfig" where
  "OpenAIModelConfig_init d =
     next_field (next_field (next_field (next_field (next_field (next_field
       (Inr OpenAIModelConfig.make)
       (field_validate_default ''base_url'' (PStr ''https://api.openai.com/v1'') (optional str_validator) d))
       (field ''api_key'' (Some None) (optional str_validator) d))
       (field ''organization'' (Some None) (optional str_validator) d))
       (field ''project'' (Some None) (optional str_validator) d))
       (field ''type'' (Some ''openai'') (literal_validator [''openai'']) d))
       (field ''name'' (Some ''gpt-4o'') str_validator d)"

definition AzureOpenAIModelConfig_init :: "dict \<Rightarrow> error + AzureOpenAIModelConfig" where
  "AzureOpenAIModelConfig_init d =
     next_field (next_field (next_field (next_field (next_field (next_field (
     next_field (next_field (next_field
       (Inr AzureOpenAIModelConfig.make)
       (field ''api_key'' (Some None) (optional str_validator) d))
       (field ''azure_ad_token'' (Some None) (optional str_validator) d))
       (field ''organization'' (Some None) (optional str_validator) d))
       (field ''project'' (Some None) (optional str_validator) d))
       (field ''api_version'' (Some (Some ''2024-07-01-preview'')) (optional str_validator) d))
       (field ''azure_endpoint'' None (optional str_validator) d))
       (field ''azure_deployment'' (Some (Some ''gpt-4o'')) (optional str_validator) d))
       (field ''azure_client_id'' (Some None) (optional str_validator) d))
       (field ''type'' (Some ''azure_openai'') (literal_validator [''azure_openai'']) d)"

definition HFHubModelConfig_init :: "lax \<Rightarrow> dict \<Rightarrow> error + HFHubModelConfig" where
  "HFHubModelConfig_init L d =
     next_field (next_field (next_field (next_field (next_field (next_field (
     next_field (next_field (next_field
       (Inr HFHubModelConfig.make)
       (field ''model'' (Some None) (optional str_validator) d))
       (field ''api_key'' (Some None) (optional (str_or_bool_validator L)) d))
       (field ''token'' (Some None) (optional (str_or_bool_validator L)) d))
       (field ''base_url'' (Some None) (optional str_validator) d))
       (field ''timeout'' (Some None) (optional (float_validator L None None)) d))
       (field ''headers'' (Some None) (optional (dict_of_validator Inr str_validator)) d))
       (field ''cookies'' (Some None) (optional (dict_of_validator Inr str_validator)) d))
       (field ''proxies'' (Some None) (optional any_validator) d))
       (field ''type'' (Some ''huggingface'') (literal_validator [''huggingface'']) d)"

definition OpenAITextCompletionParams_init :: "lax \<Rightarrow> dict \<Rightarrow> error + OpenAITextCompletionParams" where
  "OpenAITextCompletionParams_init L d =
     next_field (next_field (next_field (next_field (next_field (next_field (
     next_field (next_field (next_field (next_field (next_field (next_field
       (Inr OpenAITextCompletionParams.make)
       (field ''model'' (Some (Some ''gpt-4o'')) (optional str_validator) d))
       (field ''temperature'' (Some (Some 0)) (optional (float_validator L (Some 0) (Some 2))) d))
       (field ''max_tokens'' (Some None) (optional (int_validator L None None)) d))
       (field ''top_p'' (Some (Some 1)) (optional (float_validator L (Some 0) (Some 1))) d))
       (field ''frequency_penalty'' (Some (Some 0)) (optional (float_validator L (Some (- 2)) (Some 2))) d))
       (field ''presence_penalty'' (Some (Some 0)) (optional (float_validator L (Some (- 2)) (Some 2))) d))
       (field ''stop'' (Some None) (optional (stop_validator L)) d))
       (field ''stream'' (Some (Some False)) (optional (bool_validator L)) d))
       (field ''best_of'' (Some None) (optional (int_validator L (Some 1) None)) d))
       (field ''echo'' (Some (Some False)) (optional (bool_validator L)) d))
       (field ''logprobs'' (Some None) (optional (int_validator L (Some 0) (Some 5))) d))
       (field ''suffix'' (Some None) (optional str_validator) d)"

definition OpenAIChatCompletionParams_init :: "lax \<Rightarrow> dict \<Rightarrow> error + OpenAIChatCompletionParams" where
  "OpenAIChatCompletionParams_init L d =
     next_field (next_field (next_field (next_field (next_field (next_field (
     next_field (next_field (next_field (next_field (next_field (next_field (
     next_field (next_field (next_field (next_field (next_field (next_field
       (Inr OpenAIChatCompletionParams.make)
       (field ''model'' (Some (Some ''gpt-4o'')) (optional str_validator) d))
       (field ''temperature'' (Some (Some 0)) (optional (float_validator L (Some 0) (Some 2))) d))
       (field ''max_tokens'' (Some None) (optional (int_validator L None None)) d))
       (field ''top_p'' (Some (Some 1)) (optional (float_validator L (Some 0) (Some 1))) d))
       (field ''frequency_penalty'' (Some (Some 0)) (optional (float_validator L (Some (- 2)) (Some 2))) d))
       (field ''presence_penalty'' (Some (Some 0)) (optional (float_validator L (Some (- 2)) (Some 2))) d))
       (field ''stop'' (Some None) (optional (stop_validator L)) d))
       (field ''stream'' (Some (Some False)) (optional (bool_validator L)) d))
       (field ''logit_bias'' (Some None) (optional (dict_of_validator Inr (float_validator L None None))) d))
       (field ''logprobs'' (Some (Some False)) (optional (bool_validator L)) d))
       (field ''top_logprobs'' (Some None) (optional (int_validator L (Some 0) (Some 20))) d))
       (field ''n'' (Some (Some 1)) (optional (int_validator L (Some 1) (Some 128))) d))
       (field ''response_format'' (Some None) (optional (dict_of_validator (literal_validator [''type''] \<circ> PStr) (literal_validator [''text'', ''json_object'']))) d))
       (field ''tools'' (Some None) (optional (list_validator L (Some 64) dict_validator)) d))
       (field ''tool_choice'' (Some None) (optional str_or_dict_validator) d))
       (field ''function_call'' (Some None) (optional str_or_dict_validator) d))
       (field ''seed'' (Some None) (optional (int_validator L None None)) d))
       (field ''user'' (Some None) (optional str_validator) d)"


definition HFInferenceClientConfig_dump :: "HFInferenceClientConfig \<Rightarrow> dict" where
  "HFInferenceClientConfig_dump c =
     [(''model'', opt_dump PStr (HFInferenceClientConfig.model c)),
      (''api_key'', opt_dump str_or_bool_dump (HFInferenceClientConfig.api_key c)),
      (''token'', opt_dump str_or_bool_dump (HFInferenceClientConfig.token c)),
      (''base_url'', opt_dump PStr (HFInferenceClientConfig.base_url c)),
      (''timeout'', opt_dump PFloat (HFInferenceClientConfig.timeout c)),
      (''headers'', opt_dump (dict_dump PStr) (HFInferenceClientConfig.headers c)),
      (''cookies'', opt_dump (dict_dump PStr) (HFInferenceClientConfig.cookies c)),
      (''proxies'', opt_dump dump_any (HFInferenceClientConfig.proxies c))]"

definition OpenAIClientConfig_dump :: "OpenAIClientConfig \<Rightarrow> dict" where
  "OpenAIClientConfig_dump c =
     [(''base_url'', opt_dump PStr (OpenAIClientConfig.base_url c)),
      (''api_key'', opt_dump PStr (OpenAIClientConfig.api_key c)),
      (''organization'', opt_dump PStr (OpenAIClientConfig.organization c)),
      (''project'', opt_dump PStr (OpenAIClientConfig.project c))]"

definition AzureOpenAIClientConfig_dump :: "AzureOpenAIClientConfig \<Rightarrow> dict" where
  "AzureOpenAIClientConfig_dump c =
     [(''api_key'', opt_dump PStr (AzureOpenAIClientConfig.api_key c)),
      (''azure_ad_token'', opt_dump PStr (AzureOpenAIClientConfig.azure_ad_token c)),
      (''organization'', opt_dump PStr (AzureOpenAIClientConfig.organization c)),
      (''project'', opt_dump PStr (AzureOpenAIClientConfig.project c)),
      (''api_version'', opt_dump PStr (AzureOpenAIClientConfig.api_version c)),
      (''azure_endpoint'', opt_dump PStr (AzureOpenAIClientConfig.azure_endpoint c)),
      (''azure_deployment'', opt_dump PStr (AzureOpenAIClientConfig.azure_deployment c)),
      (''azure_client_id'', opt_dump PStr (AzureOpenAIClientConfig.azure_client_id c))]"

definition OpenAIModelConfig_dump :: "OpenAIModelConfig \<Rightarrow> dict" where
  "OpenAIModelConfig_dump c =
     [(''base_url'', opt_dump PStr (OpenAIClientConfig.base_url c)),
      (''api_key'', opt_dump PStr (OpenAIClientConfig.api_key c)),
      (''organization'', opt_dump PStr (OpenAIClientConfig.organization c)),
      (''project'', opt_dump PStr (OpenAIClientConfig.project c)),
      (''type'', PStr (OpenAIModelConfig.type c)),
      (''name'', PStr (OpenAIModelConfig.name c))]"

definition AzureOpenAIModelConfig_dump :: "AzureOpenAIModelConfig \<Rightarrow> dict" where
  "AzureOpenAIModelConfig_dump c =
     [(''api_key'', opt_dump PStr (AzureOpenAIClientConfig.api_key c)),
      (''azure_ad_token'', opt_dump PStr (AzureOpenAIClientConfig.azure_ad_token c)),
      (''organization'', opt_dump PStr (AzureOpenAIClientConfig.organization c)),
      (''project'', opt_dump PStr (AzureOpenAIClientConfig.project c)),
      (''api_version'', opt_dump PStr (AzureOpenAIClientConfig.api_version c)),
      (''azure_endpoint'', opt_dump PStr (AzureOpenAIClientConfig.azure_endpoint c)),
      (''azure_deployment'', opt_dump PStr (AzureOpenAIClientConfig.azure_deployment c)),
      (''azure_client_id'', opt_dump PStr (AzureOpenAIClientConfig.azure_client_id c)),
      (''type'', PStr (AzureOpenAIModelConfig.type c))]"

definition HFHubModelConfig_dump :: "HFHubModelConfig \<Rightarrow> dict" where
  "HFHubModelConfig_dump c =
     [(''model'', opt_dump PStr (HFInferenceClientConfig.model c)),
      (''api_key'', opt_dump str_or_bool_dump (HFInferenceClientConfig.api_key c)),
      (''token'', opt_dump str_or_bool_dump (HFInferenceClientConfig.token c)),
      (''base_url'', opt_dump PStr (HFInferenceClientConfig.base_url c)),
      (''timeout'', opt_dump PFloat (HFInferenceClientConfig.timeout c)),
      (''headers'', opt_dump (dict_dump PStr) (HFInferenceClientConfig.headers c)),
      (''cookies'', opt_dump (dict_dump PStr) (HFInferenceClientConfig.cookies c)),
      (''proxies'', opt_dump dump_any (HFInferenceClientConfig.proxies c)),
      (''type'', PStr (HFHubModelConfig.type c))]"

definition OpenAITextCompletionParams_dump :: "OpenAITextCompletionParams \<Rightarrow> dict" where
  "OpenAITextCompletionParams_dump c =
     [(''model'', opt_dump PStr (OpenAIParamsBase.model c)),
      (''temperature'', opt_dump PFloat (OpenAIParamsBase.temperature c)),
      (''max_tokens'', opt_dump PInt (OpenAIParamsBase.max_tokens c)),
      (''top_p'', opt_dump PFloat (OpenAIParamsBase.top_p c)),
      (''frequency_penalty'', opt_dump PFloat (OpenAIParamsBase.frequency_penalty c)),
      (''presence_penalty'', opt_dump PFloat (OpenAIParamsBase.presence_penalty c)),
      (''stop'', opt_dump stop_dump (OpenAIParamsBase.stop c)),
      (''stream'', opt_dump PBool (OpenAIParamsBase.stream c)),
      (''best_of'', opt_dump PInt (OpenAITextCompletionParams.best_of c)),
      (''echo'', opt_dump PBool (OpenAITextCompletionParams.echo c)),
      (''logprobs'', opt_dump PInt (OpenAITextCompletionParams.logprobs c)),
      (''suffix'', opt_dump PStr (OpenAITextCompletionParams.suffix c))]"

definition OpenAIChatCompletionParams_dump :: "OpenAIChatCompletionParams \<Rightarrow> dict" where
  "OpenAIChatCompletionParams_dump c =
     [(''model'', opt_dump PStr (OpenAIParamsBase.model c)),
      (''temperature'', opt_dump PFloat (OpenAIParamsBase.temperature c)),
      (''max_tokens'', opt_dump PInt (OpenAIParamsBase.max_tokens c)),
      (''top_p'', opt_dump PFloat (OpenAIParamsBase.top_p c)),
      (''frequency_penalty'', opt_dump PFloat (OpenAIParamsBase.frequency_penalty c)),
      (''presence_penalty'', opt_dump PFloat (OpenAIParamsBase.presence_penalty c)),
      (''stop'', opt_dump stop_dump (OpenAIParamsBase.stop c)),
      (''stream'', opt_dump PBool (OpenAIParamsBase.stream c)),
      (''logit_bias'', opt_dump (dict_dump PFloat) (OpenAIChatCompletionParams.logit_bias c)),
      (''logprobs'', opt_dump PBool (OpenAIChatCompletionParams.logprobs c)),
      (''top_logprobs'', opt_dump PInt (OpenAIChatCompletionParams.top_logprobs c)),
      (''n'', opt_dump PInt (OpenAIChatCompletionParams.n c)),
      (''response_format'', opt_dump (dict_dump PStr) (OpenAIChatCompletionParams.response_format c)),
      (''tools'', opt_dump (list_dump any_dict_dump) (OpenAIChatCompletionParams.tools c)),
      (''tool_choice'', opt_dump str_or_dict_dump (OpenAIChatCompletionParams.tool_choice c)),
      (''function_call'', opt_dump str_or_dict_dump (OpenAIChatCompletionParams.function_call c)),
      (''seed'', opt_dump PInt (OpenAIChatCompletionParams.seed c)),
      (''user'', opt_dump PStr (OpenAIChatCompletionParams.user c))]"


text \<open>The records whose free-form values hold no model object.\<close>

definition plain_proxies :: "'a HFInferenceClientConfig_scheme \<Rightarrow> bool" where
  "plain_proxies c = (case proxies c of None \<Rightarrow> True | Some v \<Rightarrow> plain v)"

definition plain_chat :: "OpenAIChatCompletionParams \<Rightarrow> bool" where
  "plain_chat q \<longleftrightarrow>
     (case tools q of None \<Rightarrow> True | Some ds \<Rightarrow> plain_dicts ds) \<and>
     (case tool_choice q of None \<Rightarrow> True | Some y \<Rightarrow> plain_choice y) \<and>
     (case function_call q of None \<Rightarrow> True | Some y \<Rightarrow> plain_choice y)"


text \<open>
  What a successful construction says about each field, and the round trip of each
  record through its serialized mapping.
\<close>

lemma HFInferenceClientConfig_fields:
  assumes "HFInferenceClientConfig_init L d = Inr c"
  shows "field ''model'' (Some None) (optional str_validator) d = Inr (HFInferenceClientConfig.model c) \<and>
     field ''api_key'' (Some None) (optional (str_or_bool_validator L)) d = Inr (HFInferenceClientConfig.api_key c) \<and>
     field ''token'' (Some None) (optional (str_or_bool_validator L)) d = Inr (HFInferenceClientConfig.token c) \<and>
     field ''base_url'' (Some None) (optional str_validator) d = Inr (HFInferenceClientConfig.base_url c) \<and>
     field ''timeout'' (Some None) (optional (float_validator L None None)) d = Inr (HFInferenceClientConfig.timeout c) \<and>
     field ''headers'' (Some None) (optional (dict_of_validator Inr str_validator)) d = Inr (HFInferenceClientConfig.headers c) \<and>
     field ''cookies'' (Some None) (optional (dict_of_validator Inr str_validator)) d = Inr (HFInferenceClientConfig.cookies c) \<and>
     field ''proxies'' (Some None) (optional any_validator) d = Inr (HFInferenceClientConfig.proxies c)"
  using assms unfolding HFInferenceClientConfig_init_def
  by (elim next_field_InrE) (simp add: HFInferenceClientConfig.defs)

lemma OpenAIClientConfig_fields:
  assumes "OpenAIClientConfig_init d = Inr c"
  shows "field_validate_default ''base_url'' (PStr ''https://api.openai.com/v1'') (optional str_validator) d = Inr (OpenAIClientConfig.base_url c) \<and>
     field ''api_key'' (Some None) (optional str_validator) d = Inr (OpenAIClientConfig.api_key c) \<and>
     field ''organization'' (Some None) (optional str_validator) d = Inr (OpenAIClientConfig.organization c) \<and>
     field ''project'' (Some None) (optional str_validator) d = Inr (OpenAIClientConfig.project c)"
  using assms unfolding OpenAIClientConfig_init_def
  by (elim next_field_InrE) (simp add: OpenAIClientConfig.defs)

lemma AzureOpenAIClientConfig_fields:
  assumes "AzureOpenAIClientConfig_init d = Inr c"
  shows "field ''api_key'' (Some None) (optional str_validator) d = Inr (AzureOpenAIClientConfig.api_key c) \<and>
     field ''azure_ad_token'' (Some None) (optional str_validator) d = Inr (AzureOpenAIClientConfig.azure_ad_token c) \<and>
     field ''organization'' (Some None) (optional str_validator) d = Inr (AzureOpenAIClientConfig.organization c) \<and>
     field ''project'' (Some None) (optional str_validator) d = Inr (AzureOpenAIClientConfig.project c) \<and>
     field ''api_version'' (Some (Some ''2024-07-01-preview'')) (optional str_validator) d = Inr (AzureOpenAIClientConfig.api_version c) \<and>
     field ''azure_endpoint'' None (optional str_validator) d = Inr (AzureOpenAIClientConfig.azure_endpoint c) \<and>
     field ''azure_deployment'' (Some (Some ''gpt-4o'')) (optional str_validator) d = Inr (AzureOpenAIClientConfig.azure_deployment c) \<and>
     field ''azure_client_id'' (Some None) (optional str_validator) d = Inr (AzureOpenAIClientConfig.azure_client_id c)"
  using assms unfolding AzureOpenAIClientConfig_init_def
  by (elim next_field_InrE) (simp add: AzureOpenAIClientConfig.defs)

lemma OpenAIModelConfig_fields:
  assumes "OpenAIModelConfig_init d = Inr c"
  shows "field_validate_default ''base_url'' (PStr ''https://api.openai.com/v1'') (optional str_validator) d = Inr (OpenAIClientConfig.base_url c) \<and>
     field ''api_key'' (Some None) (optional str_validator) d = Inr (OpenAIClientConfig.api_key c) \<and>
     field ''organization'' (Some None) (optional str_validator) d = Inr (OpenAIClientConfig.organization c) \<and>
     field ''project'' (Some None) (optional str_validator) d = Inr (OpenAIClientConfig.project c) \<and>
     field ''type'' (Some ''openai'') (literal_validator [''openai'']) d = Inr (OpenAIModelConfig.type c) \<and>
     field ''name'' (Some ''gpt-4o'') str_validator d = Inr (OpenAIModelConfig.name c)"
  using assms unfolding OpenAIModelConfig_init_def
  by (elim next_field_InrE) (simp add: OpenAIModelConfig.defs)

lemma AzureOpenAIModelConfig_fields:
  assumes "AzureOpenAIModelConfig_init d = Inr c"
  shows "field ''api_key'' (Some None) (optional str_validator) d = Inr (AzureOpenAIClientConfig.api_key c) \<and>
     field ''azure_ad_token'' (Some None) (optional str_validator) d = Inr (AzureOpenAIClientConfig.azure_ad_token c) \<and>
     field ''organization'' (Some None) (optional str_validator) d = Inr (AzureOpenAIClientConfig.organization c) \<and>
     field ''project'' (Some None) (optional str_validator) d = Inr (AzureOpenAIClientConfig.project c) \<and>
     field ''api_version'' (Some (Some ''2024-07-01-preview'')) (optional str_validator) d = Inr (AzureOpenAIClientConfig.api_version c) \<and>
     field ''azure_endpoint'' None (optional str_validator) d = Inr (AzureOpenAIClientConfig.azure_endpoint c) \<and>
     field ''azure_deployment'' (Some (Some ''gpt-4o'')) (optional str_validator) d = Inr (AzureOpenAIClientConfig.azure_deployment c) \<and>
     field ''azure_client_id'' (Some None) (optional str_validator) d = Inr (AzureOpenAIClientConfig.azure_client_id c) \<and>
     field ''type'' (Some ''azure_openai'') (literal_validator [''azure_openai'']) d = Inr (AzureOpenAIModelConfig.type c)"
  using assms unfolding AzureOpenAIModelConfig_init_def
  by (elim next_field_InrE) (simp add: AzureOpenAIModelConfig.defs)

lemma HFHubModelConfig_fields:
  assumes "HFHubModelConfig_init L d = Inr c"
  shows "field ''model'' (Some None) (optional str_validator) d = Inr (HFInferenceClientConfig.model c) \<and>
     field ''api_key'' (Some None) (optional (str_or_bool_validator L)) d = Inr (HFInferenceClientConfig.api_key c) \<and>
     field ''token'' (Some None) (optional (str_or_bool_validator L)) d = Inr (HFInferenceClientConfig.token c) \<and>
     field ''base_url'' (Some None) (optional str_validator) d = Inr (HFInferenceClientConfig.base_url c) \<and>
     field ''timeout'' (Some None) (optional (float_validator L None None)) d = Inr (HFInferenceClientConfig.timeout c) \<and>
     field ''headers'' (Some None) (optional (dict_of_validator Inr str_validator)) d = Inr (HFInferenceClientConfig.headers c) \<and>
     field ''cookies'' (Some None) (optional (dict_of_validator Inr str_validator)) d = Inr (HFInferenceClientConfig.cookies c) \<and>
     field ''proxies'' (Some None) (optional any_validator) d = Inr (HFInferenceClientConfig.proxies c) \<and>
     field ''type'' (Some ''huggingface'') (literal_validator [''huggingface'']) d = Inr (HFHubModelConfig.type c)"
  using assms unfolding HFHubModelConfig_init_def
  by (elim next_field_InrE) (simp add: HFHubModelConfig.defs)

lemma OpenAITextCompletionParams_fields:
  assumes "OpenAITextCompletionParams_init L d = Inr c"
  shows "field ''model'' (Some (Some ''gpt-4o'')) (optional str_validator) d = Inr (OpenAIParamsBase.model c) \<and>
     field ''temperature'' (Some (Some 0)) (optional (float_validator L (Some 0) (Some 2))) d = Inr (OpenAIParamsBase.temperature c) \<and>
     field ''max_tokens'' (Some None) (optional (int_validator L None None)) d = Inr (OpenAIParamsBase.max_tokens c) \<and>
     field ''top_p'' (Some (Some 1)) (optional (float_validator L (Some 0) (Some 1))) d = Inr (OpenAIParamsBase.top_p c) \<and>
     field ''frequency_penalty'' (Some (Some 0)) (optional (float_validator L (Some (- 2)) (Some 2))) d = Inr (OpenAIParamsBase.frequency_penalty c) \<and>
     field ''presence_penalty'' (Some (Some 0)) (optional (float_validator L (Some (- 2)) (Some 2))) d = Inr (OpenAIParamsBase.presence_penalty c) \<and>
     field ''stop'' (Some None) (optional (stop_validator L)) d = Inr (OpenAIParamsBase.stop c) \<and>
     field ''stream'' (Some (Some False)) (optional (bool_validator L)) d = Inr (OpenAIParamsBase.stream c) \<and>
     field ''best_of'' (Some None) (optional (int_validator L (Some 1) None)) d = Inr (OpenAITextCompletionParams.best_of c) \<and>
     field ''echo'' (Some (Some False)) (optional (bool_validator L)) d = Inr (OpenAITextCompletionParams.echo c) \<and>
     field ''logprobs'' (Some None) (optional (int_validator L (Some 0) (Some 5))) d = Inr (OpenAITextCompletionParams.logprobs c) \<and>
     field ''suffix'' (Some None) (optional str_validator) d = Inr (OpenAITextCompletionParams.suffix c)"
  using assms unfolding OpenAITextCompletionParams_init_def
  by (elim next_field_InrE) (simp add: OpenAITextCompletionParams.defs)

lemma OpenAIChatCompletionParams_fields:
  assumes "OpenAIChatCompletionParams_init L d = Inr c"
  shows "field ''model'' (Some (Some ''gpt-4o'')) (optional str_validator) d = Inr (OpenAIParamsBase.model c) \<and>
     field ''temperature'' (Some (Some 0)) (optional (float_validator L (Some 0) (Some 2))) d = Inr (OpenAIParamsBase.temperature c) \<and>
     field ''max_tokens'' (Some None) (optional (int_validator L None None)) d = Inr (OpenAIParamsBase.max_tokens c) \<and>
     field ''top_p'' (Some (Some 1)) (optional (float_validator L (Some 0) (Some 1))) d = Inr (OpenAIParamsBase.top_p c) \<and>
     field ''frequency_penalty'' (Some (Some 0)) (optional (float_validator L (Some (- 2)) (Some 2))) d = Inr (OpenAIParamsBase.frequency_penalty c) \<and>
     field ''presence_penalty'' (Some (Some 0)) (optional (float_validator L (Some (- 2)) (Some 2))) d = Inr (OpenAIParamsBase.presence_penalty c) \<and>
     field ''stop'' (Some None) (optional (stop_validator L)) d = Inr (OpenAIParamsBase.stop c) \<and>
     field ''stream'' (Some (Some False)) (optional (bool_validator L)) d = Inr (OpenAIParamsBase.stream c) \<and>
     field ''logit_bias'' (Some None) (optional (dict_of_validator Inr (float_validator L None None))) d = Inr (OpenAIChatCompletionParams.logit_bias c) \<and>
     field ''logprobs'' (Some (Some False)) (optional (bool_validator L)) d = Inr (OpenAIChatCompletionParams.logprobs c) \<and>
     field ''top_logprobs'' (Some None) (optional (int_validator L (Some 0) (Some 20))) d = Inr (OpenAIChatCompletionParams.top_logprobs c) \<and>
     field ''n'' (Some (Some 1)) (optional (int_validator L (Some 1) (Some 128))) d = Inr (OpenAIChatCompletionParams.n c) \<and>
     field ''response_format'' (Some None) (optional (dict_of_validator (literal_validator [''type''] \<circ> PStr) (literal_validator [''text'', ''json_object'']))) d = Inr (OpenAIChatCompletionParams.response_format c) \<and>
     field ''tools'' (Some None) (optional (list_validator L (Some 64) dict_validator)) d = Inr (OpenAIChatCompletionParams.tools c) \<and>
     field ''tool_choice'' (Some None) (optional str_or_dict_validator) d = Inr (OpenAIChatCompletionParams.tool_choice c) \<and>
     field ''function_call'' (Some None) (optional str_or_dict_validator) d = Inr (OpenAIChatCompletionParams.function_call c) \<and>
     field ''seed'' (Some None) (optional (int_validator L None None)) d = Inr (OpenAIChatCompletionParams.seed c) \<and>
     field ''user'' (Some None) (optional str_validator) d = Inr (OpenAIChatCompletionParams.user c)"
  using assms unfolding OpenAIChatCompletionParams_init_def
  by (elim next_field_InrE) (simp add: OpenAIChatCompletionParams.defs)


lemma HFInferenceClientConfig_roundtrip:
  assumes "HFInferenceClientConfig_init L d = Inr c"
    and "plain_proxies c"
  shows "HFInferenceClientConfig_init L (HFInferenceClientConfig_dump c) = Inr c"
proof -
  note f = HFInferenceClientConfig_fields[OF assms(1)]
  have g: "field ''model'' (Some None) (optional str_validator) (HFInferenceClientConfig_dump c) = Inr (HFInferenceClientConfig.model c)"
    "field ''api_key'' (Some None) (optional (str_or_bool_validator L)) (HFInferenceClientConfig_dump c) = Inr (HFInferenceClientConfig.api_key c)"
    "field ''token'' (Some None) (optional (str_or_bool_validator L)) (HFInferenceClientConfig_dump c) = Inr (HFInferenceClientConfig.token c)"
    "field ''base_url'' (Some None) (optional str_validator) (HFInferenceClientConfig_dump c) = Inr (HFInferenceClientConfig.base_url c)"
    "field ''timeout'' (Some None) (optional (float_validator L None None)) (HFInferenceClientConfig_dump c) = Inr (HFInferenceClientConfig.timeout c)"
    "field ''headers'' (Some None) (optional (dict_of_validator Inr str_validator)) (HFInferenceClientConfig_dump c) = Inr (HFInferenceClientConfig.headers c)"
    "field ''cookies'' (Some None) (optional (dict_of_validator Inr str_validator)) (HFInferenceClientConfig_dump c) = Inr (HFInferenceClientConfig.cookies c)"
    "field ''proxies'' (Some None) (optional any_validator) (HFInferenceClientConfig_dump c) = Inr (HFInferenceClientConfig.proxies c)"
    using f assms(2)
    by (fastforce intro: field_roundtrips simp: HFInferenceClientConfig_dump_def plain_proxies_def)+
  show ?thesis
    unfolding HFInferenceClientConfig_init_def g by (simp add: HFInferenceClientConfig.defs)
qed

lemma OpenAIClientConfig_roundtrip:
  assumes "OpenAIClientConfig_init d = Inr c"
  shows "OpenAIClientConfig_init (OpenAIClientConfig_dump c) = Inr c"
proof -
  note f = OpenAIClientConfig_fields[OF assms(1)]
  have g: "field_validate_default ''base_url'' (PStr ''https://api.openai.com/v1'') (optional str_validator) (OpenAIClientConfig_dump c) = Inr (OpenAIClientConfig.base_url c)"
    "field ''api_key'' (Some None) (optional str_validator) (OpenAIClientConfig_dump c) = Inr (OpenAIClientConfig.api_key c)"
    "field ''organization'' (Some None) (optional str_validator) (OpenAIClientConfig_dump c) = Inr (OpenAIClientConfig.organization c)"
    "field ''project'' (Some None) (optional str_validator) (OpenAIClientConfig_dump c) = Inr (OpenAIClientConfig.project c)"
    using f by (fastforce intro: field_roundtrips simp: OpenAIClientConfig_dump_def)+
  show ?thesis
    unfolding OpenAIClientConfig_init_def g by (simp add: OpenAIClientConfig.defs)
qed

lemma AzureOpenAIClientConfig_roundtrip:
  assumes "AzureOpenAIClientConfig_init d = Inr c"
  shows "AzureOpenAIClientConfig_init (AzureOpenAIClientConfig_dump c) = Inr c"
proof -
  note f = AzureOpenAIClientConfig_fields[OF assms(1)]
  have g: "field ''api_key'' (Some None) (optional str_validator) (AzureOpenAIClientConfig_dump c) = Inr (AzureOpenAIClientConfig.api_key c)"
    "field ''azure_ad_token'' (Some None) (optional str_validator) (AzureOpenAIClientConfig_dump c) = Inr (AzureOpenAIClientConfig.azure_ad_token c)"
    "field ''organization'' (Some None) (optional str_validator) (AzureOpenAIClientConfig_dump c) = Inr (AzureOpenAIClientConfig.organization c)"
    "field ''project'' (Some None) (optional str_validator) (AzureOpenAIClientConfig_dump c) = Inr (AzureOpenAIClientConfig.project c)"
    "field ''api_version'' (Some (Some ''2024-07-01-preview'')) (optional str_validator) (AzureOpenAIClientConfig_dump c) = Inr (AzureOpenAIClientConfig.api_version c)"
    "field ''azure_endpoint'' None (optional str_validator) (AzureOpenAIClientConfig_dump c) = Inr (AzureOpenAIClientConfig.azure_endpoint c)"
    "field ''azure_deployment'' (Some (Some ''gpt-4o'')) (optional str_validator) (AzureOpenAIClientConfig_dump c) = Inr (AzureOpenAIClientConfig.azure_deployment c)"
    "field ''azure_client_id'' (Some None) (optional str_validator) (AzureOpenAIClientConfig_dump c) = Inr (AzureOpenAIClientConfig.azure_client_id c)"
    using f by (fastforce intro: field_roundtrips simp: AzureOpenAIClientConfig_dump_def)+
  show ?thesis
    unfolding AzureOpenAIClientConfig_init_def g by (simp add: AzureOpenAIClientConfig.defs)
qed

lemma OpenAIModelConfig_roundtrip:
  assumes "OpenAIModelConfig_init d = Inr c"
  shows "OpenAIModelConfig_init (OpenAIModelConfig_dump c) = Inr c"
proof -
  note f = OpenAIModelConfig_fields[OF assms(1)]
  have g: "field_validate_default ''base_url'' (PStr ''https://api.openai.com/v1'') (optional str_validator) (OpenAIModelConfig_dump c) = Inr (OpenAIClientConfig.base_url c)"
    "field ''api_key'' (Some None) (optional str_validator) (OpenAIModelConfig_dump c) = Inr (OpenAIClientConfig.api_key c)"
    "field ''organization'' (Some None) (optional str_validator) (OpenAIModelConfig_dump c) = Inr (OpenAIClientConfig.organization c)"
    "field ''project'' (Some None) (optional str_validator) (OpenAIModelConfig_dump c) = Inr (OpenAIClientConfig.project c)"
    "field ''type'' (Some ''openai'') (literal_validator [''openai'']) (OpenAIModelConfig_dump c) = Inr (OpenAIModelConfig.type c)"
    "field ''name'' (Some ''gpt-4o'') str_validator (OpenAIModelConfig_dump c) = Inr (OpenAIModelConfig.name c)"
    using f by (fastforce intro: field_roundtrips simp: OpenAIModelConfig_dump_def)+
  show ?thesis
    unfolding OpenAIModelConfig_init_def g by (simp add: OpenAIModelConfig.defs)
qed

lemma AzureOpenAIModelConfig_roundtrip:
  assumes "AzureOpenAIModelConfig_init d = Inr c"
  shows "AzureOpenAIModelConfig_init (AzureOpenAIModelConfig_dump c) = Inr c"
proof -
  note f = AzureOpenAIModelConfig_fields[OF assms(1)]
  have g: "field ''api_key'' (Some None) (optional str_validator) (AzureOpenAIModelConfig_dump c) = Inr (AzureOpenAIClientConfig.api_key c)"
    "field ''azure_ad_token'' (Some None) (optional str_validator) (AzureOpenAIModelConfig_dump c) = Inr (AzureOpenAIClientConfig.azure_ad_token c)"
    "field ''organization'' (Some None) (optional str_validator) (AzureOpenAIModelConfig_dump c) = Inr (AzureOpenAIClientConfig.organization c)"
    "field ''project'' (Some None) (optional str_validator) (AzureOpenAIModelConfig_dump c) = Inr (AzureOpenAIClientConfig.project c)"
    "field ''api_version'' (Some (Some ''2024-07-01-preview'')) (optional str_validator) (AzureOpenAIModelConfig_dump c) = Inr (AzureOpenAIClientConfig.api_version c)"
    "field ''azure_endpoint'' None (optional str_validator) (AzureOpenAIModelConfig_dump c) = Inr (AzureOpenAIClientConfig.azure_endpoint c)"
    "field ''azure_deployment'' (Some (Some ''gpt-4o'')) (optional str_validator) (AzureOpenAIModelConfig_dump c) = Inr (AzureOpenAIClientConfig.azure_deployment c)"
    "field ''azure_client_id'' (Some None) (optional str_validator) (AzureOpenAIModelConfig_dump c) = Inr (AzureOpenAIClientConfig.azure_client_id c)"
    "field ''type'' (Some ''azure_openai'') (literal_validator [''azure_openai'']) (AzureOpenAIModelConfig_dump c) = Inr (AzureOpenAIModelConfig.type c)"
    using f by (fastforce intro: field_roundtrips simp: AzureOpenAIModelConfig_dump_def)+
  show ?thesis
    unfolding AzureOpenAIModelConfig_init_def g by (simp add: AzureOpenAIModelConfig.defs)
qed

lemma HFHubModelConfig_roundtrip:
  assumes "HFHubModelConfig_init L d = Inr c"
    and "plain_proxies c"
  shows "HFHubModelConfig_init L (HFHubModelConfig_dump c) = Inr c"
proof -
  note f = HFHubModelConfig_fields[OF assms(1)]
  have g: "field ''model'' (Some None) (optional str_validator) (HFHubModelConfig_dump c) = Inr (HFInferenceClientConfig.model c)"
    "field ''api_key'' (Some None) (optional (str_or_bool_validator L)) (HFHubModelConfig_dump c) = Inr (HFInferenceClientConfig.api_key c)"
    "field ''token'' (Some None) (optional (str_or_bool_validator L)) (HFHubModelConfig_dump c) = Inr (HFInferenceClientConfig.token c)"
    "field ''base_url'' (Some None) (optional str_validator) (HFHubModelConfig_dump c) = Inr (HFInferenceClientConfig.base_url c)"
    "field ''timeout'' (Some None) (optional (float_validator L None None)) (HFHubModelConfig_dump c) = Inr (HFInferenceClientConfig.timeout c)"
    "field ''headers'' (Some None) (optional (dict_of_validator Inr str_validator)) (HFHubModelConfig_dump c) = Inr (HFInferenceClientConfig.headers c)"
    "field ''cookies'' (Some None) (optional (dict_of_validator Inr str_validator)) (HFHubModelConfig_dump c) = Inr (HFInferenceClientConfig.cookies c)"
    "field ''proxies'' (Some None) (optional any_validator) (HFHubModelConfig_dump c) = Inr (HFInferenceClientConfig.proxies c)"
    "field ''type'' (Some ''huggingface'') (literal_validator [''huggingface'']) (HFHubModelConfig_dump c) = Inr (HFHubModelConfig.type c)"
    using f assms(2)
    by (fastforce intro: field_roundtrips simp: HFHubModelConfig_dump_def plain_proxies_def)+
  show ?thesis
    unfolding HFHubModelConfig_init_def g by (simp add: HFHubModelConfig.defs)
qed

lemma OpenAITextCompletionParams_roundtrip:
  assumes "OpenAITextCompletionParams_init L d = Inr c"
  shows "OpenAITextCompletionParams_init L (OpenAITextCompletionParams_dump c) = Inr c"
proof -
  note f = OpenAITextCompletionParams_fields[OF assms(1)]
  have g: "field ''model'' (Some (Some ''gpt-4o'')) (optional str_validator) (OpenAITextCompletionParams_dump c) = Inr (OpenAIParamsBase.model c)"
    "field ''temperature'' (Some (Some 0)) (optional (float_validator L (Some 0) (Some 2))) (OpenAITextCompletionParams_dump c) = Inr (OpenAIParamsBase.temperature c)"
    "field ''max_tokens'' (Some None) (optional (int_validator L None None)) (OpenAITextCompletionParams_dump c) = Inr (OpenAIParamsBase.max_tokens c)"
    "field ''top_p'' (Some (Some 1)) (optional (float_validator L (Some 0) (Some 1))) (OpenAITextCompletionParams_dump c) = Inr (OpenAIParamsBase.top_p c)"
    "field ''frequency_penalty'' (Some (Some 0)) (optional (float_validator L (Some (- 2)) (Some 2))) (OpenAITextCompletionParams_dump c) = Inr (OpenAIParamsBase.frequency_penalty c)"
    "field ''presence_penalty'' (Some (Some 0)) (optional (float_validator L (Some (- 2)) (Some 2))) (OpenAITextCompletionParams_dump c) = Inr (OpenAIParamsBase.presence_penalty c)"
    "field ''stop'' (Some None) (optional (stop_validator L)) (OpenAITextCompletionParams_dump c) = Inr (OpenAIParamsBase.stop c)"
    "field ''stream'' (Some (Some False)) (optional (bool_validator L)) (OpenAITextCompletionParams_dump c) = Inr (OpenAIParamsBase.stream c)"
    "field ''best_of'' (Some None) (optional (int_validator L (Some 1) None)) (OpenAITextCompletionParams_dump c) = Inr (OpenAITextCompletionParams.best_of c)"
    "field ''echo'' (Some (Some False)) (optional (bool_validator L)) (OpenAITextCompletionParams_dump c) = Inr (OpenAITextCompletionParams.echo c)"
    "field ''logprobs'' (Some None) (optional (int_validator L (Some 0) (Some 5))) (OpenAITextCompletionParams_dump c) = Inr (OpenAITextCompletionParams.logprobs c)"
    "field ''suffix'' (Some None) (optional str_validator) (OpenAITextCompletionParams_dump c) = Inr (OpenAITextCompletionParams.suffix c)"
    using f by (fastforce intro: field_roundtrips simp: OpenAITextCompletionParams_dump_def)+
  show ?thesis
    unfolding OpenAITextCompletionParams_init_def g by (simp add: OpenAITextCompletionParams.defs)
qed

lemma OpenAIChatCompletionParams_roundtrip:
  assumes "OpenAIChatCompletionParams_init L d = Inr c"
    and "plain_chat c"
  shows "OpenAIChatCompletionParams_init L (OpenAIChatCompletionParams_dump c) = Inr c"
proof -
  note f = OpenAIChatCompletionParams_fields[OF assms(1)]
  have g: "field ''model'' (Some (Some ''gpt-4o'')) (optional str_validator) (OpenAIChatCompletionParams_dump c) = Inr (OpenAIParamsBase.model c)"
    "field ''temperature'' (Some (Some 0)) (optional (float_validator L (Some 0) (Some 2))) (OpenAIChatCompletionParams_dump c) = Inr (OpenAIParamsBase.temperature c)"
    "field ''max_tokens'' (Some None) (optional (int_validator L None None)) (OpenAIChatCompletionParams_dump c) = Inr (OpenAIParamsBase.max_tokens c)"
    "field ''top_p'' (Some (Some 1)) (optional (float_validator L (Some 0) (Some 1))) (OpenAIChatCompletionParams_dump c) = Inr (OpenAIParamsBase.top_p c)"
    "field ''frequency_penalty'' (Some (Some 0)) (optional (float_validator L (Some (- 2)) (Some 2))) (OpenAIChatCompletionParams_dump c) = Inr (OpenAIParamsBase.frequency_penalty c)"
    "field ''presence_penalty'' (Some (Some 0)) (optional (float_validator L (Some (- 2)) (Some 2))) (OpenAIChatCompletionParams_dump c) = Inr (OpenAIParamsBase.presence_penalty c)"
    "field ''stop'' (Some None) (optional (stop_validator L)) (OpenAIChatCompletionParams_dump c) = Inr (OpenAIParamsBase.stop c)"
    "field ''stream'' (Some (Some False)) (optional (bool_validator L)) (OpenAIChatCompletionParams_dump c) = Inr (OpenAIParamsBase.stream c)"
    "field ''logit_bias'' (Some None) (optional (dict_of_validator Inr (float_validator L None None))) (OpenAIChatCompletionParams_dump c) = Inr (OpenAIChatCompletionParams.logit_bias c)"
    "field ''logprobs'' (Some (Some False)) (optional (bool_validator L)) (OpenAIChatCompletionParams_dump c) = Inr (OpenAIChatCompletionParams.logprobs c)"
    "field ''top_logprobs'' (Some None) (optional (int_validator L (Some 0) (Some 20))) (OpenAIChatCompletionParams_dump c) = Inr (OpenAIChatCompletionParams.top_logprobs c)"
    "field ''n'' (Some (Some 1)) (optional (int_validator L (Some 1) (Some 128))) (OpenAIChatCompletionParams_dump c) = Inr (OpenAIChatCompletionParams.n c)"
    "field ''response_format'' (Some None) (optional (dict_of_validator (literal_validator [''type''] \<circ> PStr) (literal_validator [''text'', ''json_object'']))) (OpenAIChatCompletionParams_dump c) = Inr (OpenAIChatCompletionParams.response_format c)"
    "field ''tools'' (Some None) (optional (list_validator L (Some 64) dict_validator)) (OpenAIChatCompletionParams_dump c) = Inr (OpenAIChatCompletionParams.tools c)"
    "field ''tool_choice'' (Some None) (optional str_or_dict_validator) (OpenAIChatCompletionParams_dump c) = Inr (OpenAIChatCompletionParams.tool_choice c)"
    "field ''function_call'' (Some None) (optional str_or_dict_validator) (OpenAIChatCompletionParams_dump c) = Inr (OpenAIChatCompletionParams.function_call c)"
    "field ''seed'' (Some None) (optional (int_validator L None None)) (OpenAIChatCompletionParams_dump c) = Inr (OpenAIChatCompletionParams.seed c)"
    "field ''user'' (Some None) (optional str_validator) (OpenAIChatCompletionParams_dump c) = Inr (OpenAIChatCompletionParams.user c)"
    using f assms(2)
    by (fastforce intro: field_roundtrips simp: OpenAIChatCompletionParams_dump_def plain_chat_def)+
  show ?thesis
    unfolding OpenAIChatCompletionParams_init_def g by (simp add: OpenAIChatCompletionParams.defs)
qed


subsection \<open>The model of a template definition: \<open>PromptyModelConfig\<close>\<close>

datatype configuration =
    OpenAI OpenAIModelConfig
  | AzureOpenAI AzureOpenAIModelConfig
  | HuggingFace HFHubModelConfig

datatype parameters =
    TextCompletion OpenAITextCompletionParams
  | ChatCompletion OpenAIChatCompletionParams

text \<open>
  What a caller passes for a field that holds a record: nothing (the key is missing or
  its value is \<open>None\<close>), a raw mapping, or an instance of one of the field's record types.
\<close>

datatype 'a given = Absent | Mapping dict | Instance 'a

record "values" =
  configuration_given :: "configuration given"
  parameters_given :: "parameters given"
  other_values :: dict

text \<open>Truth value of \<open>if configuration and parameters\<close>: an empty mapping is false.\<close>

fun truthy :: "'a given \<Rightarrow> bool" where
  "truthy Absent = False"
| "truthy (Mapping d) = (d \<noteq> [])"
| "truthy (Instance x) = True"

text \<open>Lines 142 to 148: a raw configuration mapping is built into the record its tag names.\<close>

definition coerce_configuration :: "lax \<Rightarrow> configuration given \<Rightarrow> error + configuration given" where
  "coerce_configuration L c =
     (case c of
        Mapping d \<Rightarrow>
          if map_of d ''type'' = Some (PStr ''openai'') then
            (case OpenAIModelConfig_init d of
               Inl e \<Rightarrow> Inl e
             | Inr x \<Rightarrow> Inr (Instance (OpenAI x)))
          else if map_of d ''type'' = Some (PStr ''azure_openai'') then
            (case AzureOpenAIModelConfig_init d of
               Inl e \<Rightarrow> Inl e
             | Inr x \<Rightarrow> Inr (Instance (AzureOpenAI x)))
          else if map_of d ''type'' = Some (PStr ''huggingface'') then
            (case HFHubModelConfig_init L d of
               Inl e \<Rightarrow> Inl e
             | Inr x \<Rightarrow> Inr (Instance (HuggingFace x)))
          else Inr (Mapping d)
      | _ \<Rightarrow> Inr c)"

text \<open>Lines 151 to 155: a raw parameters mapping.\<close>

definition coerce_parameters ::
  "lax \<Rightarrow> configuration given \<Rightarrow> parameters given \<Rightarrow> error + parameters given"
where
  "coerce_parameters L c p =
     (case p of
        Mapping d \<Rightarrow>
          (case c of
             Instance (OpenAI x) \<Rightarrow>
               (case OpenAIChatCompletionParams_init L d of
                  Inl e \<Rightarrow> Inl e
                | Inr q \<Rightarrow> Inr (Instance (ChatCompletion q)))
           | Instance (AzureOpenAI x) \<Rightarrow>
               (case OpenAIChatCompletionParams_init L d of
                  Inl e \<Rightarrow> Inl e
                | Inr q \<Rightarrow> Inr (Instance (ChatCompletion q)))
           | _ \<Rightarrow> Inr p)
      | _ \<Rightarrow> Inr p)"

text \<open>
  Line 159, right-hand side: \<open>configuration.name or configuration.azure_deployment\<close>.
  Reading an attribute that the object does not have raises \<open>AttributeError\<close>; only
  \<open>OpenAIModelConfig\<close> declares \<open>name\<close>, and it does not declare \<open>azure_deployment\<close>,
  which is read when the name is empty.
\<close>

fun name_or_azure_deployment :: "configuration given \<Rightarrow> error + string" where
  "name_or_azure_deployment (Instance (OpenAI x)) =
     (if OpenAIModelConfig.name x \<noteq> [] then Inr (OpenAIModelConfig.name x)
      else Inl (AttributeError ''OpenAIModelConfig'' ''azure_deployment''))"
| "name_or_azure_deployment (Instance (AzureOpenAI x)) =
     Inl (AttributeError ''AzureOpenAIModelConfig'' ''name'')"
| "name_or_azure_deployment (Instance (HuggingFace x)) =
     Inl (AttributeError ''HFHubModelConfig'' ''name'')"
| "name_or_azure_deployment (Mapping d) = Inl (AttributeError ''dict'' ''name'')"
| "name_or_azure_deployment Absent = Inl (AttributeError ''NoneType'' ''name'')"

text \<open>Line 159, the assignment \<open>parameters.model = ...\<close>.\<close>

fun set_model :: "string \<Rightarrow> parameters given \<Rightarrow> error + parameters given" where
  "set_model v (Instance (TextCompletion t)) =
     Inr (Instance (TextCompletion (t\<lparr>OpenAIParamsBase.model := Some v\<rparr>)))"
| "set_model v (Instance (ChatCompletion q)) =
     Inr (Instance (ChatCompletion (q\<lparr>OpenAIParamsBase.model := Some v\<rparr>)))"
| "set_model v (Mapping d) = Inl (AttributeError ''dict'' ''model'')"
| "set_model v Absent = Inl (AttributeError ''NoneType'' ''model'')"

definition sync_model_name :: "lax \<Rightarrow> values \<Rightarrow> error + values" where
  "sync_model_name L vs =
     (case coerce_configuration L (configuration_given vs) of
        Inl e \<Rightarrow> Inl e
      | Inr c \<Rightarrow>
          (case coerce_parameters L c (parameters_given vs) of
             Inl e \<Rightarrow> Inl e
           | Inr p \<Rightarrow>
               if truthy c \<and> truthy p then
                 (case name_or_azure_deployment c of
                    Inl e \<Rightarrow> Inl e
                  | Inr v \<Rightarrow>
                      (case set_model v p of
                         Inl e \<Rightarrow> Inl e
                       | Inr p' \<Rightarrow> Inr (vs\<lparr>configuration_given := c, parameters_given := p'\<rparr>)))
               else Inr (vs\<lparr>configuration_given := c, parameters_given := p\<rparr>)))"

record PromptyModelConfig =
  api :: string
  configuration :: configuration
  parameters :: parameters
  response :: string

text \<open>
  A field that holds a record, after the pass: the pass always stores the key, so a
  missing value is \<open>None\<close> and \<open>none_to_default\<close> raises for a field without default. An
  instance is taken as it is. A mapping that the pass left as it was is resolved by the
  library among the field's record types; how it chooses is not fixed by the sources, so
  the resolution is a parameter.
\<close>

definition model_field :: "(dict \<Rightarrow> error + 'a) \<Rightarrow> 'a given \<Rightarrow> error + 'a" where
  "model_field resolve g =
     (case g of
        Absent \<Rightarrow> Inl UncaughtUseDefault
      | Mapping d \<Rightarrow> resolve d
      | Instance x \<Rightarrow> Inr x)"

definition PromptyModelConfig_init ::
  "lax \<Rightarrow> (dict \<Rightarrow> error + configuration) \<Rightarrow> (dict \<Rightarrow> error + parameters) \<Rightarrow> values \<Rightarrow>
   error + PromptyModelConfig"
where
  "PromptyModelConfig_init L resolve_configuration resolve_parameters vs =
     (case sync_model_name L vs of
        Inl e \<Rightarrow> Inl e
      | Inr vs' \<Rightarrow>
          next_field (next_field (next_field (next_field
            (Inr PromptyModelConfig.make)
            (field ''api'' (Some ''chat'') (literal_validator [''chat'', ''completion''])
               (other_values vs')))
            (model_field resolve_configuration (configuration_given vs')))
            (model_field resolve_parameters (parameters_given vs')))
            (field ''response'' (Some ''first'') str_validator (other_values vs')))"

fun configuration_dump :: "configuration \<Rightarrow> dict" where
  "configuration_dump (OpenAI x) = OpenAIModelConfig_dump x"
| "configuration_dump (AzureOpenAI x) = AzureOpenAIModelConfig_dump x"
| "configuration_dump (HuggingFace x) = HFHubModelConfig_dump x"

fun parameters_dump :: "parameters \<Rightarrow> dict" where
  "parameters_dump (TextCompletion t) = OpenAITextCompletionParams_dump t"
| "parameters_dump (ChatCompletion q) = OpenAIChatCompletionParams_dump q"

definition PromptyModelConfig_dump :: "PromptyModelConfig \<Rightarrow> values" where
  "PromptyModelConfig_dump r =
     \<lparr>configuration_given = Mapping (configuration_dump (configuration r)),
      parameters_given = Mapping (parameters_dump (parameters r)),
      other_values = [(''api'', PStr (api r)), (''response'', PStr (response r))]\<rparr>"


subsection \<open>Bounds of the parameter sets\<close>

definition in_range :: "'a::linorder \<Rightarrow> 'a \<Rightarrow> 'a option \<Rightarrow> bool" where
  "in_range lo hi x = (case x of None \<Rightarrow> True | Some a \<Rightarrow> lo \<le> a \<and> a \<le> hi)"

definition out_of_range :: "'a::linorder \<Rightarrow> 'a \<Rightarrow> 'a option \<Rightarrow> bool" where
  "out_of_range lo hi x = (case x of None \<Rightarrow> False | Some a \<Rightarrow> a < lo \<or> hi < a)"

definition base_bounds :: "'a OpenAIParamsBase_scheme \<Rightarrow> bool" where
  "base_bounds p \<longleftrightarrow>
     in_range 0 2 (temperature p) \<and> in_range 0 1 (top_p p) \<and>
     in_range (- 2) 2 (frequency_penalty p) \<and> in_range (- 2) 2 (presence_penalty p)"

text \<open>The number a mapping gives for a key, where it gives one (\<open>None\<close> is the sentinel).\<close>

definition given_int :: "lax \<Rightarrow> dict \<Rightarrow> string \<Rightarrow> int option" where
  "given_int L d key =
     (case map_of d key of
        None \<Rightarrow> None
      | Some v \<Rightarrow>
          if v = PNone then None
          else (case as_int L v of Inl k \<Rightarrow> None | Inr i \<Rightarrow> Some i))"

definition given_float :: "lax \<Rightarrow> dict \<Rightarrow> string \<Rightarrow> rat option" where
  "given_float L d key =
     (case map_of d key of
        None \<Rightarrow> None
      | Some v \<Rightarrow>
          if v = PNone then None
          else (case as_float L v of Inl k \<Rightarrow> None | Inr q \<Rightarrow> Some q))"

text \<open>Construction failed with a \<open>SchemaValidationError\<close> that names the field.\<close>

definition rejects :: "error + 'a \<Rightarrow> string \<Rightarrow> bool" where
  "rejects r key =
     (case r of
        Inl (SchemaValidationError es) \<Rightarrow> key \<in> fst ` set es
      | _ \<Rightarrow> False)"

fun errs :: "error + 'a \<Rightarrow> (string \<times> string) list" where
  "errs (Inl (SchemaValidationError es)) = es"
| "errs r = []"

fun aborted :: "error + 'a \<Rightarrow> bool" where
  "aborted (Inl (SchemaValidationError es)) = False"
| "aborted (Inl e) = True"
| "aborted (Inr x) = False"

definition chat_defaults :: OpenAIChatCompletionParams where
  "chat_defaults =
     \<lparr>OpenAIParamsBase.model = Some ''gpt-4o'', temperature = Some 0, max_tokens = None,
      top_p = Some 1, frequency_penalty = Some 0, presence_penalty = Some 0, stop = None,
      stream = Some False, logit_bias = None, logprobs = Some False, top_logprobs = None,
      n = Some 1, response_format = None, tools = None, tool_choice = None,
      function_call = None, seed = None, user = None\<rparr>"

lemma next_field_errs:
  "\<not> aborted f \<Longrightarrow> \<not> aborted x \<Longrightarrow>
   \<not> aborted (next_field f x) \<and> errs (next_field f x) = errs f @ errs x"
  by (cases f rule: aborted.cases; cases x rule: aborted.cases) simp_all

lemma in_range_simps [simp]:
  "in_range lo hi None" "in_range lo hi (Some a) \<longleftrightarrow> lo \<le> a \<and> a \<le> hi"
  by (simp_all add: in_range_def)

lemma field_not_aborted: "\<not> aborted (field key (Some dflt) val d)"
  by (auto simp: field_def split: option.splits pyval.splits sum.splits)

lemma field_errs_keys: "fst ` set (errs (field key dflt val d)) \<subseteq> {key}"
  by (auto simp: field_def split: option.splits pyval.splits sum.splits)

lemma rejectsI: "\<not> aborted r \<Longrightarrow> key \<in> fst ` set (errs r) \<Longrightarrow> rejects r key"
  by (cases r rule: errs.cases) (auto simp: rejects_def)

lemma field_float_rejected:
  "out_of_range lo hi (given_float L d key) \<Longrightarrow>
   key \<in> fst ` set (errs (field key dflt (optional (float_validator L (Some lo) (Some hi))) d))"
  by (auto simp: out_of_range_def given_float_def field_given optional_def float_validator_def
      split: option.splits sum.splits if_splits)

lemma field_int_rejected:
  "out_of_range lo hi (given_int L d key) \<Longrightarrow>
   key \<in> fst ` set (errs (field key dflt (optional (int_validator L (Some lo) (Some hi))) d))"
  by (auto simp: out_of_range_def given_int_def field_given optional_def int_validator_def
      split: option.splits sum.splits if_splits)

lemma field_float_in_range:
  "field key (Some dflt) (optional (float_validator L (Some lo) (Some hi))) d = Inr x \<Longrightarrow>
   in_range lo hi dflt \<Longrightarrow> in_range lo hi x"
  by (erule field_Inr_cases)
     (auto simp: optional_def float_validator_def in_range_def split: sum.splits if_splits)

lemma field_int_in_range:
  "field key (Some dflt) (optional (int_validator L (Some lo) (Some hi))) d = Inr x \<Longrightarrow>
   in_range lo hi dflt \<Longrightarrow> in_range lo hi x"
  by (erule field_Inr_cases)
     (auto simp: optional_def int_validator_def in_range_def split: sum.splits if_splits)

lemma chat_not_aborted:
  "\<not> aborted (OpenAIChatCompletionParams_init L d) \<and>
   errs (OpenAIChatCompletionParams_init L d) =
     errs (field ''model'' (Some (Some ''gpt-4o'')) (optional str_validator) d) @
     errs (field ''temperature'' (Some (Some 0)) (optional (float_validator L (Some 0) (Some 2))) d) @
     errs (field ''max_tokens'' (Some None) (optional (int_validator L None None)) d) @
     errs (field ''top_p'' (Some (Some 1)) (optional (float_validator L (Some 0) (Some 1))) d) @
     errs (field ''frequency_penalty'' (Some (Some 0)) (optional (float_validator L (Some (- 2)) (Some 2))) d) @
     errs (field ''presence_penalty'' (Some (Some 0)) (optional (float_validator L (Some (- 2)) (Some 2))) d) @
     errs (field ''stop'' (Some None) (optional (stop_validator L)) d) @
     errs (field ''stream'' (Some (Some False)) (optional (bool_validator L)) d) @
     errs (field ''logit_bias'' (Some None) (optional (dict_of_validator Inr (float_validator L None None))) d) @
     errs (field ''logprobs'' (Some (Some False)) (optional (bool_validator L)) d) @
     errs (field ''top_logprobs'' (Some None) (optional (int_validator L (Some 0) (Some 20))) d) @
     errs (field ''n'' (Some (Some 1)) (optional (int_validator L (Some 1) (Some 128))) d) @
     errs (field ''response_format'' (Some None) (optional (dict_of_validator (literal_validator [''type''] \<circ> PStr) (literal_validator [''text'', ''json_object'']))) d) @
     errs (field ''tools'' (Some None) (optional (list_validator L (Some 64) dict_validator)) d) @
     errs (field ''tool_choice'' (Some None) (optional str_or_dict_validator) d) @
     errs (field ''function_call'' (Some None) (optional str_or_dict_validator) d) @
     errs (field ''seed'' (Some None) (optional (int_validator L None None)) d) @
     errs (field ''user'' (Some None) (optional str_validator) d)"
  unfolding OpenAIChatCompletionParams_init_def
  by (simp add: next_field_errs field_not_aborted)

lemma text_not_aborted:
  "\<not> aborted (OpenAITextCompletionParams_init L d) \<and>
   errs (OpenAITextCompletionParams_init L d) =
     errs (field ''model'' (Some (Some ''gpt-4o'')) (optional str_validator) d) @
     errs (field ''temperature'' (Some (Some 0)) (optional (float_validator L (Some 0) (Some 2))) d) @
     errs (field ''max_tokens'' (Some None) (optional (int_validator L None None)) d) @
     errs (field ''top_p'' (Some (Some 1)) (optional (float_validator L (Some 0) (Some 1))) d) @
     errs (field ''frequency_penalty'' (Some (Some 0)) (optional (float_validator L (Some (- 2)) (Some 2))) d) @
     errs (field ''presence_penalty'' (Some (Some 0)) (optional (float_validator L (Some (- 2)) (Some 2))) d) @
     errs (field ''stop'' (Some None) (optional (stop_validator L)) d) @
     errs (field ''stream'' (Some (Some False)) (optional (bool_validator L)) d) @
     errs (field ''best_of'' (Some None) (optional (int_validator L (Some 1) None)) d) @
     errs (field ''echo'' (Some (Some False)) (optional (bool_validator L)) d) @
     errs (field ''logprobs'' (Some None) (optional (int_validator L (Some 0) (Some 5))) d) @
     errs (field ''suffix'' (Some None) (optional str_validator) d)"
  unfolding OpenAITextCompletionParams_init_def
  by (simp add: next_field_errs field_not_aborted)

lemma chat_rejects:
  assumes "key \<in> fst ` set (errs (OpenAIChatCompletionParams_init L d))"
  shows "rejects (OpenAIChatCompletionParams_init L d) key"
  using assms chat_not_aborted[of L d] by (intro rejectsI) simp_all

lemma text_rejects:
  assumes "key \<in> fst ` set (errs (OpenAITextCompletionParams_init L d))"
  shows "rejects (OpenAITextCompletionParams_init L d) key"
  using assms text_not_aborted[of L d] by (intro rejectsI) simp_all

lemma chat_bounds:
  assumes "OpenAIChatCompletionParams_init L d = Inr q"
  shows "base_bounds q \<and> in_range 1 128 (n q) \<and> in_range 0 20 (top_logprobs q)"
proof -
  note f = OpenAIChatCompletionParams_fields[OF assms]
  have "in_range 0 2 (temperature q)" "in_range 0 1 (top_p q)"
    "in_range (- 2) 2 (frequency_penalty q)" "in_range (- 2) 2 (presence_penalty q)"
    using f by (auto intro: field_float_in_range)
  moreover have "in_range 1 128 (n q)" "in_range 0 20 (top_logprobs q)"
    using f by (auto intro: field_int_in_range)
  ultimately show ?thesis by (simp add: base_bounds_def)
qed

lemma text_bounds:
  assumes "OpenAITextCompletionParams_init L d = Inr t"
  shows "base_bounds t"
proof -
  note f = OpenAITextCompletionParams_fields[OF assms]
  have "in_range 0 2 (temperature t)" "in_range 0 1 (top_p t)"
    "in_range (- 2) 2 (frequency_penalty t)" "in_range (- 2) 2 (presence_penalty t)"
    using f by (auto intro: field_float_in_range)
  then show ?thesis by (simp add: base_bounds_def)
qed

lemma chat_float_rejected:
  "out_of_range 0 2 (given_float L d ''temperature'') \<Longrightarrow>
     rejects (OpenAIChatCompletionParams_init L d) ''temperature''"
  "out_of_range 0 1 (given_float L d ''top_p'') \<Longrightarrow>
     rejects (OpenAIChatCompletionParams_init L d) ''top_p''"
  "out_of_range (- 2) 2 (given_float L d ''frequency_penalty'') \<Longrightarrow>
     rejects (OpenAIChatCompletionParams_init L d) ''frequency_penalty''"
  "out_of_range (- 2) 2 (given_float L d ''presence_penalty'') \<Longrightarrow>
     rejects (OpenAIChatCompletionParams_init L d) ''presence_penalty''"
  by (rule chat_rejects, simp add: chat_not_aborted, drule field_float_rejected, blast)+

lemma text_float_rejected:
  "out_of_range 0 2 (given_float L d ''temperature'') \<Longrightarrow>
     rejects (OpenAITextCompletionParams_init L d) ''temperature''"
  "out_of_range 0 1 (given_float L d ''top_p'') \<Longrightarrow>
     rejects (OpenAITextCompletionParams_init L d) ''top_p''"
  "out_of_range (- 2) 2 (given_float L d ''frequency_penalty'') \<Longrightarrow>
     rejects (OpenAITextCompletionParams_init L d) ''frequency_penalty''"
  "out_of_range (- 2) 2 (given_float L d ''presence_penalty'') \<Longrightarrow>
     rejects (OpenAITextCompletionParams_init L d) ''presence_penalty''"
  by (rule text_rejects, simp add: text_not_aborted, drule field_float_rejected, blast)+

lemma chat_int_rejected:
  "out_of_range 1 128 (given_int L d ''n'') \<Longrightarrow>
     rejects (OpenAIChatCompletionParams_init L d) ''n''"
  "out_of_range 0 20 (given_int L d ''top_logprobs'') \<Longrightarrow>
     rejects (OpenAIChatCompletionParams_init L d) ''top_logprobs''"
  by (rule chat_rejects, simp add: chat_not_aborted, drule field_int_rejected, blast)+

lemma chat_init_defaults: "OpenAIChatCompletionParams_init L [] = Inr chat_defaults"
  by (simp add: OpenAIChatCompletionParams_init_def field_def chat_defaults_def
      OpenAIChatCompletionParams.defs)


text \<open>
  Claim C5. Every successfully constructed parameter set, chat-completion or
  text-completion, has its temperature in [0, 2], its top_p in [0, 1] and its frequency
  and presence penalties in [-2, 2]; a chat-completion set has n in [1, 128] and
  top_logprobs in [0, 20], where the field holds a number. When the mapping gives one of
  these fields a number outside its bounds, construction fails with a
  SchemaValidationError that names the field.
\<close>

theorem parameter_set_bounds:
  "(OpenAIChatCompletionParams_init L d = Inr q \<longrightarrow>
      base_bounds q \<and> in_range 1 128 (n q) \<and> in_range 0 20 (top_logprobs q)) \<and>
   (OpenAITextCompletionParams_init L d = Inr t \<longrightarrow> base_bounds t) \<and>
   (out_of_range 0 2 (given_float L d ''temperature'') \<longrightarrow>
      rejects (OpenAIChatCompletionParams_init L d) ''temperature'' \<and>
      rejects (OpenAITextCompletionParams_init L d) ''temperature'') \<and>
   (out_of_range 0 1 (given_float L d ''top_p'') \<longrightarrow>
      rejects (OpenAIChatCompletionParams_init L d) ''top_p'' \<and>
      rejects (OpenAITextCompletionParams_init L d) ''top_p'') \<and>
   (out_of_range (- 2) 2 (given_float L d ''frequency_penalty'') \<longrightarrow>
      rejects (OpenAIChatCompletionParams_init L d) ''frequency_penalty'' \<and>
      rejects (OpenAITextCompletionParams_init L d) ''frequency_penalty'') \<and>
   (out_of_range (- 2) 2 (given_float L d ''presence_penalty'') \<longrightarrow>
      rejects (OpenAIChatCompletionParams_init L d) ''presence_penalty'' \<and>
      rejects (OpenAITextCompletionParams_init L d) ''presence_penalty'') \<and>
   (out_of_range 1 128 (given_int L d ''n'') \<longrightarrow>
      rejects (OpenAIChatCompletionParams_init L d) ''n'') \<and>
   (out_of_range 0 20 (given_int L d ''top_logprobs'') \<longrightarrow>
      rejects (OpenAIChatCompletionParams_init L d) ''top_logprobs'')"
  using chat_bounds[of L d q] text_bounds[of L d t]
    chat_float_rejected[of L d] text_float_rejected[of L d] chat_int_rejected[of L d]
  by blast

theorem parameter_set_bounds_witness:
  "OpenAIChatCompletionParams_init strict [(''n'', PInt 1)] = Inr chat_defaults \<and>
   base_bounds chat_defaults \<and> in_range 1 128 (n chat_defaults) \<and>
   rejects (OpenAIChatCompletionParams_init strict [(''n'', PInt 129)]) ''n''"
proof -
  have ok: "OpenAIChatCompletionParams_init strict [(''n'', PInt 1)] = Inr chat_defaults"
    by (simp add: OpenAIChatCompletionParams_init_def field_def optional_def chat_defaults_def
        OpenAIChatCompletionParams.defs)
  have bad: "out_of_range 1 128 (given_int strict [(''n'', PInt 129)] ''n'')"
    by (simp add: out_of_range_def given_int_def as_int_def)
  show ?thesis
    using ok bad
      parameter_set_bounds[where L = strict and d = "[(''n'', PInt 1)]" and q = chat_defaults]
      parameter_set_bounds[where L = strict and d = "[(''n'', PInt 129)]"]
    by simp
qed

subsection \<open>The limit on the tools of a chat-completion parameter set\<close>

lemma field_update_other:
  "key \<noteq> k \<Longrightarrow> field key dflt val (AList.update k v d) = field key dflt val d"
  by (simp add: field_def update_conv')

lemma field_update_same:
  "field k dflt val (AList.update k v d) = field k dflt val [(k, v)]"
  by (simp add: field_def update_conv')

lemma all_valid_written:
  "(\<And>y. val (enc y) = Inr y) \<Longrightarrow> all_valid val (map enc ys) = Inr ys"
  by (induction ys) simp_all

lemma field_tools_accepted:
  "length ds \<le> 64 \<Longrightarrow>
   field ''tools'' (Some None) (optional (list_validator L (Some 64) dict_validator))
     [(''tools'', PList (map PDict ds))] = Inr (Some ds)"
  by (simp add: field_def optional_def list_validator_def as_list_def dict_validator_def
      all_valid_written[of dict_validator PDict])

lemma field_tools_rejected:
  "map_of d ''tools'' = Some v \<Longrightarrow> v \<noteq> PNone \<Longrightarrow> as_list L v = Inr ts \<Longrightarrow> 64 < length ts \<Longrightarrow>
   errs (field ''tools'' (Some None) (optional (list_validator L (Some 64) dict_validator)) d)
     = [(''tools'', ''too_long'')]"
  by (simp add: field_given optional_def list_validator_def)

lemma chat_with_tools:
  assumes "OpenAIChatCompletionParams_init L d = Inr q" and "length ds \<le> 64"
  shows "OpenAIChatCompletionParams_init L (AList.update ''tools'' (PList (map PDict ds)) d)
           = Inr (q\<lparr>tools := Some ds\<rparr>)"
proof -
  note f = OpenAIChatCompletionParams_fields[OF assms(1)]
  show ?thesis
    unfolding OpenAIChatCompletionParams_init_def
    by (simp add: field_update_other field_update_same field_tools_accepted[OF assms(2)] f
        OpenAIChatCompletionParams.defs)
qed

text \<open>
  Claim C9. A tools list of more than 64 entries makes the construction of a
  chat-completion parameter set fail with a SchemaValidationError for the field tools. A
  list of at most 64 mappings is accepted: a mapping that validates still validates with
  such a list as its tools, and the list is what the record holds.
\<close>

theorem tools_at_most_64:
  "(map_of d ''tools'' = Some v \<and> v \<noteq> PNone \<and> as_list L v = Inr ts \<and> 64 < length ts \<longrightarrow>
      rejects (OpenAIChatCompletionParams_init L d) ''tools'') \<and>
   (OpenAIChatCompletionParams_init L d = Inr q \<and> length ds \<le> 64 \<longrightarrow>
      OpenAIChatCompletionParams_init L (AList.update ''tools'' (PList (map PDict ds)) d)
        = Inr (q\<lparr>tools := Some ds\<rparr>))"
proof (intro conjI impI)
  assume a: "map_of d ''tools'' = Some v \<and> v \<noteq> PNone \<and> as_list L v = Inr ts \<and> 64 < length ts"
  then have "errs (field ''tools'' (Some None)
      (optional (list_validator L (Some 64) dict_validator)) d) = [(''tools'', ''too_long'')]"
    using field_tools_rejected[of d v L ts] by simp
  then have "''tools'' \<in> fst ` set (errs (OpenAIChatCompletionParams_init L d))"
    by (simp add: chat_not_aborted)
  then show "rejects (OpenAIChatCompletionParams_init L d) ''tools''"
    by (rule chat_rejects)
next
  assume "OpenAIChatCompletionParams_init L d = Inr q \<and> length ds \<le> 64"
  then show "OpenAIChatCompletionParams_init L (AList.update ''tools'' (PList (map PDict ds)) d)
      = Inr (q\<lparr>tools := Some ds\<rparr>)"
    using chat_with_tools[of L d q ds] by simp
qed

theorem tools_at_most_64_witness:
  "rejects (OpenAIChatCompletionParams_init strict
      [(''tools'', PList (replicate 65 (PDict [])))]) ''tools'' \<and>
   OpenAIChatCompletionParams_init strict [(''tools'', PList (map PDict (replicate 64 [])))]
     = Inr (chat_defaults\<lparr>tools := Some (replicate 64 [])\<rparr>)"
  using tools_at_most_64[where L = strict and d = "[(''tools'', PList (replicate 65 (PDict [])))]"
      and v = "PList (replicate 65 (PDict []))" and ts = "replicate 65 (PDict [])"]
    tools_at_most_64[where L = strict and d = "[]" and q = chat_defaults and ds = "replicate 64 []"]
    chat_init_defaults[of strict]
  by (simp add: as_list_def)


subsection \<open>The pass \<open>sync_model_name\<close>\<close>

definition openai_defaults :: OpenAIModelConfig where
  "openai_defaults =
     \<lparr>OpenAIClientConfig.base_url = Some ''https://api.openai.com/v1'', api_key = None,
      organization = None, project = None, OpenAIModelConfig.type = ''openai'',
      name = ''gpt-4o''\<rparr>"

definition azure_example :: AzureOpenAIModelConfig where
  "azure_example =
     \<lparr>AzureOpenAIClientConfig.api_key = None, azure_ad_token = None, organization = None,
      project = None, api_version = Some ''2024-07-01-preview'',
      azure_endpoint = Some ''https://example.openai.azure.com'',
      azure_deployment = Some ''gpt-4o'', azure_client_id = None,
      AzureOpenAIModelConfig.type = ''azure_openai''\<rparr>"

definition text_defaults :: OpenAITextCompletionParams where
  "text_defaults =
     \<lparr>OpenAIParamsBase.model = Some ''gpt-4o'', temperature = Some 0, max_tokens = None,
      top_p = Some 1, frequency_penalty = Some 0, presence_penalty = Some 0, stop = None,
      stream = Some False, best_of = None, echo = Some False,
      OpenAITextCompletionParams.logprobs = None,
      suffix = None\<rparr>"

lemma sync_model_name_Inr:
  assumes "sync_model_name L vs = Inr vs'"
  shows "\<exists>c p. coerce_configuration L (configuration_given vs) = Inr c \<and>
           coerce_parameters L c (parameters_given vs) = Inr p \<and>
           (if truthy c \<and> truthy p
            then \<exists>v p'. name_or_azure_deployment c = Inr v \<and> set_model v p = Inr p' \<and>
                   vs' = vs\<lparr>configuration_given := c, parameters_given := p'\<rparr>
            else vs' = vs\<lparr>configuration_given := c, parameters_given := p\<rparr>)"
  using assms unfolding sync_model_name_def
  by (auto split: sum.splits if_splits)

lemma coerce_parameters_chat:
  "c = Instance (OpenAI x) \<or> c = Instance (AzureOpenAI y) \<Longrightarrow>
   coerce_parameters L c (Mapping d) =
     (case OpenAIChatCompletionParams_init L d of
        Inl e \<Rightarrow> Inl e
      | Inr q \<Rightarrow> Inr (Instance (ChatCompletion q)))"
  by (auto simp: coerce_parameters_def)

lemma coerce_parameters_text:
  "coerce_parameters L c p = Inr (Instance (TextCompletion t)) \<Longrightarrow>
   p = Instance (TextCompletion t)"
  by (auto simp: coerce_parameters_def
      split: given.splits configuration.splits sum.splits)

lemma set_model_text:
  "set_model v p = Inr (Instance (TextCompletion t)) \<Longrightarrow>
   \<exists>t'. p = Instance (TextCompletion t')"
  by (cases "(v, p)" rule: set_model.cases) auto

lemma sync_model_name_no_text:
  assumes "sync_model_name L vs = Inr vs'" and "parameters_given vs = Mapping d"
  shows "parameters_given vs' \<noteq> Instance (TextCompletion t)"
proof
  assume t: "parameters_given vs' = Instance (TextCompletion t)"
  from sync_model_name_Inr[OF assms(1)] obtain c p
    where p: "coerce_parameters L c (parameters_given vs) = Inr p"
    and yes: "truthy c \<and> truthy p \<Longrightarrow>
           \<exists>v p'. name_or_azure_deployment c = Inr v \<and> set_model v p = Inr p' \<and>
             vs' = vs\<lparr>configuration_given := c, parameters_given := p'\<rparr>"
    and no: "\<not> (truthy c \<and> truthy p) \<Longrightarrow>
           vs' = vs\<lparr>configuration_given := c, parameters_given := p\<rparr>"
    by (auto split: if_splits)
  have "\<exists>t'. p = Instance (TextCompletion t')"
  proof (cases "truthy c \<and> truthy p")
    case True
    from yes[OF True] t show ?thesis by (auto dest: set_model_text)
  next
    case False
    from no[OF False] t show ?thesis by auto
  qed
  then obtain t' where "p = Instance (TextCompletion t')" by blast
  with p assms(2) coerce_parameters_text[of L c "Mapping d" t'] show False by simp
qed

lemma sync_model_name_openai:
  assumes "sync_model_name L vs = Inr vs'" and "parameters_given vs = Mapping d"
    and "configuration_given vs' = Instance (OpenAI x)"
  shows "\<exists>q. OpenAIChatCompletionParams_init L d = Inr q \<and>
           OpenAIModelConfig.name x \<noteq> [] \<and>
           parameters_given vs' = Instance (ChatCompletion
             (q\<lparr>OpenAIParamsBase.model := Some (OpenAIModelConfig.name x)\<rparr>))"
proof -
  from sync_model_name_Inr[OF assms(1)] obtain c p
    where c: "coerce_configuration L (configuration_given vs) = Inr c"
    and p: "coerce_parameters L c (parameters_given vs) = Inr p"
    and yes: "truthy c \<and> truthy p \<Longrightarrow>
           \<exists>v p'. name_or_azure_deployment c = Inr v \<and> set_model v p = Inr p' \<and>
             vs' = vs\<lparr>configuration_given := c, parameters_given := p'\<rparr>"
    and no: "\<not> (truthy c \<and> truthy p) \<Longrightarrow>
           vs' = vs\<lparr>configuration_given := c, parameters_given := p\<rparr>"
    by (auto split: if_splits)
  have cx: "c = Instance (OpenAI x)"
  proof (cases "truthy c \<and> truthy p")
    case True
    from yes[OF True] assms(3) show ?thesis by auto
  next
    case False
    from no[OF False] assms(3) show ?thesis by auto
  qed
  with p assms(2) obtain q where q: "OpenAIChatCompletionParams_init L d = Inr q"
    and pq: "p = Instance (ChatCompletion q)"
    by (auto simp: coerce_parameters_def split: sum.splits)
  from cx pq have "truthy c \<and> truthy p" by simp
  from yes[OF this] cx pq q show ?thesis
    by (auto split: if_splits)
qed

lemma sync_model_name_openai_total:
  assumes "coerce_configuration L (configuration_given vs) = Inr (Instance (OpenAI x))"
    and "parameters_given vs = Mapping d"
  shows "sync_model_name L vs =
           (case OpenAIChatCompletionParams_init L d of
              Inl e \<Rightarrow> Inl e
            | Inr q \<Rightarrow>
                if OpenAIModelConfig.name x \<noteq> [] then
                  Inr (vs\<lparr>configuration_given := Instance (OpenAI x),
                          parameters_given := Instance (ChatCompletion
                            (q\<lparr>OpenAIParamsBase.model := Some (OpenAIModelConfig.name x)\<rparr>))\<rparr>)
                else Inl (AttributeError ''OpenAIModelConfig'' ''azure_deployment''))"
  by (simp add: sync_model_name_def coerce_parameters_def assms split: sum.splits)

lemma sync_model_name_azure_total:
  assumes "coerce_configuration L (configuration_given vs) = Inr (Instance (AzureOpenAI y))"
    and "parameters_given vs = Mapping d"
  shows "sync_model_name L vs =
           (case OpenAIChatCompletionParams_init L d of
              Inl e \<Rightarrow> Inl e
            | Inr q \<Rightarrow> Inl (AttributeError ''AzureOpenAIModelConfig'' ''name''))"
  by (simp add: sync_model_name_def coerce_parameters_def assms split: sum.splits)

lemma PromptyModelConfig_init_Inr:
  assumes "PromptyModelConfig_init L rc rp vs = Inr r"
  shows "\<exists>vs'. sync_model_name L vs = Inr vs' \<and>
           field ''api'' (Some ''chat'') (literal_validator [''chat'', ''completion''])
             (other_values vs') = Inr (api r) \<and>
           model_field rc (configuration_given vs') = Inr (configuration r) \<and>
           model_field rp (parameters_given vs') = Inr (parameters r) \<and>
           field ''response'' (Some ''first'') str_validator (other_values vs')
             = Inr (response r)"
proof -
  from assms obtain vs' where s: "sync_model_name L vs = Inr vs'"
    and chain: "next_field (next_field (next_field (next_field
            (Inr PromptyModelConfig.make)
            (field ''api'' (Some ''chat'') (literal_validator [''chat'', ''completion''])
               (other_values vs')))
            (model_field rc (configuration_given vs')))
            (model_field rp (parameters_given vs')))
            (field ''response'' (Some ''first'') str_validator (other_values vs')) = Inr r"
    by (auto simp: PromptyModelConfig_init_def split: sum.splits)
  from chain have "field ''api'' (Some ''chat'') (literal_validator [''chat'', ''completion''])
             (other_values vs') = Inr (api r) \<and>
           model_field rc (configuration_given vs') = Inr (configuration r) \<and>
           model_field rp (parameters_given vs') = Inr (parameters r) \<and>
           field ''response'' (Some ''first'') str_validator (other_values vs')
             = Inr (response r)"
    by (elim next_field_InrE) (simp add: PromptyModelConfig.defs)
  with s show ?thesis by blast
qed

lemma PromptyModelConfig_openai_chat:
  assumes "PromptyModelConfig_init L rc rp vs = Inr r"
    and "coerce_configuration L (configuration_given vs) = Inr (Instance (OpenAI x))"
    and "parameters_given vs = Mapping d"
  shows "\<exists>q. OpenAIChatCompletionParams_init L d = Inr q \<and>
           configuration r = OpenAI x \<and>
           parameters r = ChatCompletion
             (q\<lparr>OpenAIParamsBase.model := Some (OpenAIModelConfig.name x)\<rparr>)"
proof -
  from PromptyModelConfig_init_Inr[OF assms(1)] obtain vs'
    where s: "sync_model_name L vs = Inr vs'"
      and fc: "model_field rc (configuration_given vs') = Inr (configuration r)"
      and fp: "model_field rp (parameters_given vs') = Inr (parameters r)"
    by blast
  from s sync_model_name_openai_total[OF assms(2,3)]
  obtain q where q: "OpenAIChatCompletionParams_init L d = Inr q"
    and vs': "vs' = vs\<lparr>configuration_given := Instance (OpenAI x),
                parameters_given := Instance (ChatCompletion
                  (q\<lparr>OpenAIParamsBase.model := Some (OpenAIModelConfig.name x)\<rparr>))\<rparr>"
    by (auto split: sum.splits if_splits)
  from fc fp vs' q show ?thesis
    by (simp add: model_field_def)
qed

text \<open>
  Claim C2. When the configuration and the parameters both resolve, the parameter set's
  model is the configuration's model name, or its deployment name when it has no model
  name. The pass reads \<open>configuration.name\<close> first, an attribute that only the
  direct-API configuration declares: for a cloud-hosted configuration, whose model is
  its deployment, the construction ends with \<open>AttributeError\<close> and no record is built.
\<close>

theorem sync_model_name_azure_deployment:
  "PromptyModelConfig_init L resolve_configuration resolve_parameters
     \<lparr>configuration_given =
        Mapping [(''type'', PStr ''azure_openai''),
                 (''azure_endpoint'', PStr ''https://example.openai.azure.com'')],
      parameters_given = Mapping [], other_values = []\<rparr>
   = Inl (AttributeError ''AzureOpenAIModelConfig'' ''name'')"
  by (simp add: PromptyModelConfig_init_def sync_model_name_def coerce_configuration_def
      coerce_parameters_def AzureOpenAIModelConfig_init_def chat_init_defaults field_def
      optional_def)

lemma sync_model_name_openai_example:
  "PromptyModelConfig_init L resolve_configuration resolve_parameters
     \<lparr>configuration_given =
        Mapping [(''type'', PStr ''openai''), (''name'', PStr ''gpt-4o-mini'')],
      parameters_given = Mapping [], other_values = []\<rparr>
   = Inr \<lparr>api = ''chat'',
          configuration = OpenAI (openai_defaults\<lparr>name := ''gpt-4o-mini''\<rparr>),
          parameters = ChatCompletion
            (chat_defaults\<lparr>OpenAIParamsBase.model := Some ''gpt-4o-mini''\<rparr>),
          response = ''first''\<rparr>"
  by (simp add: PromptyModelConfig_init_def sync_model_name_def coerce_configuration_def
      coerce_parameters_def OpenAIModelConfig_init_def chat_init_defaults field_def
      field_validate_default_def optional_def model_field_def openai_defaults_def
      OpenAIModelConfig.defs PromptyModelConfig.defs)

text \<open>
  Claim C3. In the pass, a raw parameters mapping is built into the chat-completion
  variant whenever the configuration has resolved to the direct-API or the cloud-hosted
  variant, and the text-completion variant is never selected. For the coercion step:
  its outcome on a raw mapping is that of the chat-completion constructor, and it never
  produces the text-completion variant. For the whole pass on a raw parameters mapping:
  with a direct-API configuration it returns the error of the chat-completion
  constructor or, where that succeeds, the values with the chat-completion set built
  from the mapping (for a configuration with a name); with a cloud-hosted
  configuration it returns the error of the chat-completion constructor or, where that
  succeeds, the attribute error of the next line; it never ends with text-completion
  parameters. A record built by the whole validation from a direct-API configuration
  and a raw parameters mapping holds the chat-completion set.
\<close>

theorem raw_parameters_become_chat:
  "(c = Instance (OpenAI x) \<or> c = Instance (AzureOpenAI y) \<longrightarrow>
      coerce_parameters L c (Mapping d) =
        (case OpenAIChatCompletionParams_init L d of
           Inl e \<Rightarrow> Inl e
         | Inr q \<Rightarrow> Inr (Instance (ChatCompletion q)))) \<and>
   (coerce_parameters L c p = Inr (Instance (TextCompletion t)) \<longrightarrow>
      p = Instance (TextCompletion t)) \<and>
   (sync_model_name L vs = Inr vs' \<and> parameters_given vs = Mapping d \<longrightarrow>
      parameters_given vs' \<noteq> Instance (TextCompletion t)) \<and>
   (sync_model_name L vs = Inr vs' \<and> parameters_given vs = Mapping d \<and>
    configuration_given vs' = Instance (OpenAI x) \<longrightarrow>
      (\<exists>q. OpenAIChatCompletionParams_init L d = Inr q \<and>
         parameters_given vs' = Instance (ChatCompletion
           (q\<lparr>OpenAIParamsBase.model := Some (OpenAIModelConfig.name x)\<rparr>)))) \<and>
   (coerce_configuration L (configuration_given vs) = Inr (Instance (OpenAI x)) \<and>
    parameters_given vs = Mapping d \<longrightarrow>
      sync_model_name L vs =
        (case OpenAIChatCompletionParams_init L d of
           Inl e \<Rightarrow> Inl e
         | Inr q \<Rightarrow>
             if OpenAIModelConfig.name x \<noteq> [] then
               Inr (vs\<lparr>configuration_given := Instance (OpenAI x),
                       parameters_given := Instance (ChatCompletion
                         (q\<lparr>OpenAIParamsBase.model := Some (OpenAIModelConfig.name x)\<rparr>))\<rparr>)
             else Inl (AttributeError ''OpenAIModelConfig'' ''azure_deployment''))) \<and>
   (coerce_configuration L (configuration_given vs) = Inr (Instance (AzureOpenAI y)) \<and>
    parameters_given vs = Mapping d \<longrightarrow>
      sync_model_name L vs =
        (case OpenAIChatCompletionParams_init L d of
           Inl e \<Rightarrow> Inl e
         | Inr q \<Rightarrow> Inl (AttributeError ''AzureOpenAIModelConfig'' ''name''))) \<and>
   (PromptyModelConfig_init L rc rp vs = Inr r \<and>
    coerce_configuration L (configuration_given vs) = Inr (Instance (OpenAI x)) \<and>
    parameters_given vs = Mapping d \<longrightarrow>
      (\<exists>q. OpenAIChatCompletionParams_init L d = Inr q \<and>
         parameters r = ChatCompletion
           (q\<lparr>OpenAIParamsBase.model := Some (OpenAIModelConfig.name x)\<rparr>)))"
proof (intro conjI impI)
  assume "c = Instance (OpenAI x) \<or> c = Instance (AzureOpenAI y)"
  then show "coerce_parameters L c (Mapping d) =
        (case OpenAIChatCompletionParams_init L d of
           Inl e \<Rightarrow> Inl e
         | Inr q \<Rightarrow> Inr (Instance (ChatCompletion q)))"
    by (rule coerce_parameters_chat)
next
  assume "coerce_parameters L c p = Inr (Instance (TextCompletion t))"
  then show "p = Instance (TextCompletion t)"
    by (rule coerce_parameters_text)
next
  assume "sync_model_name L vs = Inr vs' \<and> parameters_given vs = Mapping d"
  then show "parameters_given vs' \<noteq> Instance (TextCompletion t)"
    using sync_model_name_no_text[of L vs vs' d t] by simp
next
  assume "sync_model_name L vs = Inr vs' \<and> parameters_given vs = Mapping d \<and>
    configuration_given vs' = Instance (OpenAI x)"
  then show "\<exists>q. OpenAIChatCompletionParams_init L d = Inr q \<and>
         parameters_given vs' = Instance (ChatCompletion
           (q\<lparr>OpenAIParamsBase.model := Some (OpenAIModelConfig.name x)\<rparr>))"
    using sync_model_name_openai[of L vs vs' d x] by blast
next
  assume "coerce_configuration L (configuration_given vs) = Inr (Instance (OpenAI x)) \<and>
    parameters_given vs = Mapping d"
  then show "sync_model_name L vs =
        (case OpenAIChatCompletionParams_init L d of
           Inl e \<Rightarrow> Inl e
         | Inr q \<Rightarrow>
             if OpenAIModelConfig.name x \<noteq> [] then
               Inr (vs\<lparr>configuration_given := Instance (OpenAI x),
                       parameters_given := Instance (ChatCompletion
                         (q\<lparr>OpenAIParamsBase.model := Some (OpenAIModelConfig.name x)\<rparr>))\<rparr>)
             else Inl (AttributeError ''OpenAIModelConfig'' ''azure_deployment''))"
    using sync_model_name_openai_total[of L vs x d] by simp
next
  assume "coerce_configuration L (configuration_given vs) = Inr (Instance (AzureOpenAI y)) \<and>
    parameters_given vs = Mapping d"
  then show "sync_model_name L vs =
        (case OpenAIChatCompletionParams_init L d of
           Inl e \<Rightarrow> Inl e
         | Inr q \<Rightarrow> Inl (AttributeError ''AzureOpenAIModelConfig'' ''name''))"
    using sync_model_name_azure_total[of L vs y d] by simp
next
  assume "PromptyModelConfig_init L rc rp vs = Inr r \<and>
    coerce_configuration L (configuration_given vs) = Inr (Instance (OpenAI x)) \<and>
    parameters_given vs = Mapping d"
  then show "\<exists>q. OpenAIChatCompletionParams_init L d = Inr q \<and>
         parameters r = ChatCompletion
           (q\<lparr>OpenAIParamsBase.model := Some (OpenAIModelConfig.name x)\<rparr>)"
    using PromptyModelConfig_openai_chat[of L rc rp vs r x d] by blast
qed

lemma coerce_configuration_examples:
  "coerce_configuration L (Mapping [(''type'', PStr ''openai'')])
     = Inr (Instance (OpenAI openai_defaults))"
  "coerce_configuration L
     (Mapping [(''type'', PStr ''azure_openai''),
               (''azure_endpoint'', PStr ''https://example.openai.azure.com'')])
     = Inr (Instance (AzureOpenAI azure_example))"
  by (simp_all add: coerce_configuration_def OpenAIModelConfig_init_def
      AzureOpenAIModelConfig_init_def openai_defaults_def azure_example_def field_def
      field_validate_default_def optional_def OpenAIModelConfig.defs
      AzureOpenAIModelConfig.defs)

lemma chat_init_examples:
  "OpenAIChatCompletionParams_init strict [(''n'', PInt 1)] = Inr chat_defaults"
  "OpenAIChatCompletionParams_init strict [(''n'', PInt 129)]
     = Inl (SchemaValidationError [(''n'', ''less_than_equal'')])"
  by (simp_all add: OpenAIChatCompletionParams_init_def field_def optional_def chat_defaults_def
      OpenAIChatCompletionParams.defs)

theorem raw_parameters_become_chat_witness:
  "coerce_parameters strict (Instance (OpenAI openai_defaults)) (Mapping [])
     = Inr (Instance (ChatCompletion chat_defaults)) \<and>
   sync_model_name strict
     \<lparr>configuration_given = Mapping [(''type'', PStr ''openai'')],
      parameters_given = Mapping [(''n'', PInt 1)], other_values = []\<rparr>
     = Inr \<lparr>configuration_given = Instance (OpenAI openai_defaults),
            parameters_given = Instance (ChatCompletion chat_defaults),
            other_values = []\<rparr> \<and>
   sync_model_name strict
     \<lparr>configuration_given =
        Mapping [(''type'', PStr ''azure_openai''),
                 (''azure_endpoint'', PStr ''https://example.openai.azure.com'')],
      parameters_given = Mapping [(''n'', PInt 129)], other_values = []\<rparr>
     = Inl (SchemaValidationError [(''n'', ''less_than_equal'')]) \<and>
   sync_model_name strict
     \<lparr>configuration_given =
        Mapping [(''type'', PStr ''azure_openai''),
                 (''azure_endpoint'', PStr ''https://example.openai.azure.com'')],
      parameters_given = Mapping [(''n'', PInt 1)], other_values = []\<rparr>
     = Inl (AttributeError ''AzureOpenAIModelConfig'' ''name'')"
proof -
  let ?azure = "Mapping [(''type'', PStr ''azure_openai''),
                 (''azure_endpoint'', PStr ''https://example.openai.azure.com'')]"
  have m: "chat_defaults\<lparr>OpenAIParamsBase.model := Some ''gpt-4o''\<rparr> = chat_defaults"
    by (simp add: chat_defaults_def)
  have nm: "OpenAIModelConfig.name openai_defaults = ''gpt-4o''"
    by (simp add: openai_defaults_def)
  have 1: "coerce_parameters strict (Instance (OpenAI openai_defaults)) (Mapping [])
     = Inr (Instance (ChatCompletion chat_defaults))"
    using raw_parameters_become_chat[where c = "Instance (OpenAI openai_defaults)"
        and x = openai_defaults and L = strict and d = "[]", THEN conjunct1]
      chat_init_defaults[of strict]
    by simp
  have 2: "sync_model_name strict
     \<lparr>configuration_given = Mapping [(''type'', PStr ''openai'')],
      parameters_given = Mapping [(''n'', PInt 1)], other_values = []\<rparr>
     = Inr \<lparr>configuration_given = Instance (OpenAI openai_defaults),
            parameters_given = Instance (ChatCompletion chat_defaults),
            other_values = []\<rparr>"
    using raw_parameters_become_chat[where L = strict and x = openai_defaults
        and d = "[(''n'', PInt 1)]"
        and vs = "\<lparr>configuration_given = Mapping [(''type'', PStr ''openai'')],
                  parameters_given = Mapping [(''n'', PInt 1)], other_values = []\<rparr>",
        THEN conjunct2, THEN conjunct2, THEN conjunct2, THEN conjunct2, THEN conjunct1]
      coerce_configuration_examples(1)[of strict] chat_init_examples(1)
    by (simp add: m nm)
  have 3: "sync_model_name strict
     \<lparr>configuration_given = ?azure,
      parameters_given = Mapping [(''n'', PInt 129)], other_values = []\<rparr>
     = Inl (SchemaValidationError [(''n'', ''less_than_equal'')])"
    using raw_parameters_become_chat[where L = strict and y = azure_example
        and d = "[(''n'', PInt 129)]"
        and vs = "\<lparr>configuration_given = ?azure,
                  parameters_given = Mapping [(''n'', PInt 129)], other_values = []\<rparr>",
        THEN conjunct2, THEN conjunct2, THEN conjunct2, THEN conjunct2, THEN conjunct2,
        THEN conjunct1]
      coerce_configuration_examples(2)[of strict] chat_init_examples(2)
    by simp
  have 4: "sync_model_name strict
     \<lparr>configuration_given = ?azure,
      parameters_given = Mapping [(''n'', PInt 1)], other_values = []\<rparr>
     = Inl (AttributeError ''AzureOpenAIModelConfig'' ''name'')"
    using raw_parameters_become_chat[where L = strict and y = azure_example
        and d = "[(''n'', PInt 1)]"
        and vs = "\<lparr>configuration_given = ?azure,
                  parameters_given = Mapping [(''n'', PInt 1)], other_values = []\<rparr>",
        THEN conjunct2, THEN conjunct2, THEN conjunct2, THEN conjunct2, THEN conjunct2,
        THEN conjunct1]
      coerce_configuration_examples(2)[of strict] chat_init_examples(1)
    by simp
  from 1 2 3 4 show ?thesis by simp
qed


subsection \<open>Example records\<close>



definition hf_client_example :: HFInferenceClientConfig where
  "hf_client_example =
     \<lparr>HFInferenceClientConfig.model = None, HFInferenceClientConfig.api_key = None,
      HFInferenceClientConfig.token = None, HFInferenceClientConfig.base_url = None,
      HFInferenceClientConfig.timeout = None, HFInferenceClientConfig.headers = None,
      HFInferenceClientConfig.cookies = None,
      HFInferenceClientConfig.proxies = Some (PDict [(''https'', PStr ''proxy.example:3128'')])\<rparr>"

definition hf_hub_example :: HFHubModelConfig where
  "hf_hub_example =
     \<lparr>HFInferenceClientConfig.model = Some ''example/model'',
      HFInferenceClientConfig.api_key = None,
      HFInferenceClientConfig.token = None, HFInferenceClientConfig.base_url = None,
      HFInferenceClientConfig.timeout = None, HFInferenceClientConfig.headers = None,
      HFInferenceClientConfig.cookies = None,
      HFInferenceClientConfig.proxies = Some (PDict [(''https'', PStr ''proxy.example:3128'')]),
      HFHubModelConfig.type = ''huggingface''\<rparr>"

definition openai_client_defaults :: OpenAIClientConfig where
  "openai_client_defaults =
     \<lparr>OpenAIClientConfig.base_url = Some ''https://api.openai.com/v1'',
      OpenAIClientConfig.api_key = None, OpenAIClientConfig.organization = None,
      OpenAIClientConfig.project = None\<rparr>"

definition azure_client_example :: AzureOpenAIClientConfig where
  "azure_client_example =
     \<lparr>AzureOpenAIClientConfig.api_key = None, azure_ad_token = None,
      AzureOpenAIClientConfig.organization = None, AzureOpenAIClientConfig.project = None,
      api_version = Some ''2024-07-01-preview'',
      azure_endpoint = Some ''https://example.openai.azure.com'',
      azure_deployment = Some ''gpt-4o'', azure_client_id = None\<rparr>"

definition chat_example :: OpenAIChatCompletionParams where
  "chat_example = chat_defaults\<lparr>tools := Some [[(''type'', PStr ''function'')]]\<rparr>"

definition chat_template :: PromptyModelConfig where
  "chat_template =
     \<lparr>api = ''chat'', configuration = OpenAI openai_defaults,
      parameters = ChatCompletion chat_defaults, response = ''first''\<rparr>"

definition chat_values :: "values" where
  "chat_values =
     \<lparr>configuration_given = Mapping [(''type'', PStr ''openai'')],
      parameters_given = Mapping [(''n'', PInt 1)],
      other_values = [(''api'', PNone)]\<rparr>"

lemma client_examples:
  "HFInferenceClientConfig_init strict
     [(''model'', PNone), (''proxies'', PDict [(''https'', PStr ''proxy.example:3128'')])]
     = Inr hf_client_example"
  "OpenAIClientConfig_init [(''type'', PStr ''openai''), (''base_url'', PNone)]
     = Inr openai_client_defaults"
  "AzureOpenAIClientConfig_init
     [(''api_version'', PNone), (''azure_endpoint'', PStr ''https://example.openai.azure.com'')]
     = Inr azure_client_example"
  by (simp_all add: HFInferenceClientConfig_init_def OpenAIClientConfig_init_def
      AzureOpenAIClientConfig_init_def hf_client_example_def openai_client_defaults_def
      azure_client_example_def field_def field_validate_default_def optional_def
      any_validator_def HFInferenceClientConfig.defs OpenAIClientConfig.defs AzureOpenAIClientConfig.defs)

lemma model_examples:
  "OpenAIModelConfig_init [(''type'', PStr ''openai''), (''name'', PNone)] = Inr openai_defaults"
  "AzureOpenAIModelConfig_init
     [(''type'', PNone), (''azure_endpoint'', PStr ''https://example.openai.azure.com'')]
     = Inr azure_example"
  "HFHubModelConfig_init strict
     [(''type'', PStr ''huggingface''), (''model'', PStr ''example/model''), (''token'', PNone),
      (''proxies'', PDict [(''https'', PStr ''proxy.example:3128'')])]
     = Inr hf_hub_example"
  by (simp_all add: OpenAIModelConfig_init_def AzureOpenAIModelConfig_init_def
      HFHubModelConfig_init_def openai_defaults_def azure_example_def hf_hub_example_def
      field_def field_validate_default_def optional_def any_validator_def
      OpenAIModelConfig.defs AzureOpenAIModelConfig.defs HFHubModelConfig.defs)

lemma parameter_examples:
  "OpenAITextCompletionParams_init strict [(''temperature'', PNone)] = Inr text_defaults"
  "OpenAIChatCompletionParams_init strict
     [(''n'', PNone), (''tools'', PList [PDict [(''type'', PStr ''function'')]])]
     = Inr chat_example"
  by (simp_all add: OpenAITextCompletionParams_init_def OpenAIChatCompletionParams_init_def
      text_defaults_def chat_example_def chat_defaults_def field_def optional_def
      list_validator_def as_list_def dict_validator_def
      OpenAITextCompletionParams.defs OpenAIChatCompletionParams.defs)

lemma template_example:
  "PromptyModelConfig_init strict rc rp chat_values = Inr chat_template"
proof -
  have m: "chat_defaults\<lparr>OpenAIParamsBase.model := Some ''gpt-4o''\<rparr> = chat_defaults"
    by (simp add: chat_defaults_def)
  have n: "OpenAIModelConfig.name openai_defaults = ''gpt-4o''"
    by (simp add: openai_defaults_def)
  show ?thesis
    by (simp add: PromptyModelConfig_init_def sync_model_name_def chat_values_def
        coerce_configuration_examples coerce_parameters_def chat_init_examples m n
        field_def model_field_def PromptyModelConfig.defs chat_template_def)
qed

lemma plain_examples:
  "plain_proxies hf_client_example" "plain_proxies hf_hub_example" "plain_chat chat_example"
  "plain_chat chat_defaults"
  by (simp_all add: plain_proxies_def plain_chat_def plain_def plain_dicts_def
      hf_client_example_def hf_hub_example_def chat_example_def chat_defaults_def)

subsection \<open>The absent sentinel and the declared default\<close>















































subsection \<open>Round trip through the serialized field mapping\<close>

definition completion_values :: "values" where
  "completion_values =
     \<lparr>configuration_given = Instance (OpenAI openai_defaults),
      parameters_given = Instance (TextCompletion text_defaults),
      other_values = [(''api'', PStr ''completion'')]\<rparr>"

definition completion_template :: PromptyModelConfig where
  "completion_template =
     \<lparr>api = ''completion'', configuration = OpenAI openai_defaults,
      parameters = TextCompletion text_defaults, response = ''first''\<rparr>"

text \<open>A client configuration whose free-form \<open>proxies\<close> value is a message object.\<close>

definition hf_message_example :: HFInferenceClientConfig where
  "hf_message_example =
     hf_client_example\<lparr>proxies :=
       Some (PMessage [(''role'', PStr ''user''), (''content'', PStr ''x'')])\<rparr>"

text \<open>The parameters of a template definition's model hold no model object.\<close>

fun plain_parameters :: "parameters \<Rightarrow> bool" where
  "plain_parameters (TextCompletion t) = True"
| "plain_parameters (ChatCompletion q) = plain_chat q"

lemma OpenAIModelConfig_type:
  assumes "OpenAIModelConfig_init d = Inr x"
  shows "OpenAIModelConfig.type x = ''openai''"
proof -
  from OpenAIModelConfig_fields[OF assms]
  have "field ''type'' (Some ''openai'') (literal_validator [''openai'']) d
          = Inr (OpenAIModelConfig.type x)"
    by simp
  then show ?thesis
    by (cases rule: field_Inr_cases)
       (auto simp: literal_validator_def split: pyval.splits if_splits)
qed

lemma chat_with_model:
  assumes "OpenAIChatCompletionParams_init L d = Inr q"
  shows "OpenAIChatCompletionParams_init L (AList.update ''model'' (PStr s) d)
           = Inr (q\<lparr>OpenAIParamsBase.model := Some s\<rparr>)"
proof -
  note f = OpenAIChatCompletionParams_fields[OF assms]
  have m: "field ''model'' (Some (Some ''gpt-4o'')) (optional str_validator)
             [(''model'', PStr s)] = Inr (Some s)"
    by (simp add: field_def optional_def)
  show ?thesis
    unfolding OpenAIChatCompletionParams_init_def
    by (simp add: field_update_other field_update_same m f OpenAIChatCompletionParams.defs)
qed

lemma PromptyModelConfig_roundtrip:
  assumes r: "PromptyModelConfig_init L rc rp
        \<lparr>configuration_given = Mapping dc, parameters_given = Mapping dp, other_values = dv\<rparr>
      = Inr r"
    and tag: "map_of dc ''type'' = Some (PStr ''openai'')"
    and pl: "plain_parameters (parameters r)"
  shows "PromptyModelConfig_init L rc rp (PromptyModelConfig_dump r) = Inr r"
proof -
  let ?vs = "\<lparr>configuration_given = Mapping dc, parameters_given = Mapping dp,
              other_values = dv\<rparr>"
  from PromptyModelConfig_init_Inr[OF r] obtain vs'
    where s: "sync_model_name L ?vs = Inr vs'"
      and fa: "field ''api'' (Some ''chat'') (literal_validator [''chat'', ''completion''])
             (other_values vs') = Inr (api r)"
      and fc: "model_field rc (configuration_given vs') = Inr (configuration r)"
      and fp: "model_field rp (parameters_given vs') = Inr (parameters r)"
      and fr: "field ''response'' (Some ''first'') str_validator (other_values vs')
             = Inr (response r)"
    by blast
  from sync_model_name_Inr[OF s] tag obtain x
    where x: "OpenAIModelConfig_init dc = Inr x"
      and cx: "configuration_given vs' = Instance (OpenAI x)"
      and ov: "other_values vs' = dv"
    by (auto simp: coerce_configuration_def split: sum.splits if_splits)
  from sync_model_name_openai[OF s _ cx, of dp] obtain q
    where q: "OpenAIChatCompletionParams_init L dp = Inr q"
      and nonempty: "OpenAIModelConfig.name x \<noteq> []"
      and pq: "parameters_given vs' = Instance (ChatCompletion
             (q\<lparr>OpenAIParamsBase.model := Some (OpenAIModelConfig.name x)\<rparr>))"
    by auto
  define q' where "q' = q\<lparr>OpenAIParamsBase.model := Some (OpenAIModelConfig.name x)\<rparr>"
  from fc cx have conf: "configuration r = OpenAI x" by (simp add: model_field_def)
  from fp pq have pars: "parameters r = ChatCompletion q'" by (simp add: model_field_def q'_def)
  have x': "OpenAIModelConfig_init (OpenAIModelConfig_dump x) = Inr x"
    using x by (rule OpenAIModelConfig_roundtrip)
  have tag': "map_of (OpenAIModelConfig_dump x) ''type'' = Some (PStr ''openai'')"
    using OpenAIModelConfig_type[OF x] by (simp add: OpenAIModelConfig_dump_def)
  have "OpenAIChatCompletionParams_init L
      (AList.update ''model'' (PStr (OpenAIModelConfig.name x)) dp) = Inr q'"
    unfolding q'_def using q by (rule chat_with_model)
  moreover from pl pars have "plain_chat q'" by simp
  ultimately
  have q'': "OpenAIChatCompletionParams_init L (OpenAIChatCompletionParams_dump q') = Inr q'"
    by (rule OpenAIChatCompletionParams_roundtrip)
  have same: "q'\<lparr>OpenAIParamsBase.model := Some (OpenAIModelConfig.name x)\<rparr> = q'"
    by (simp add: q'_def)
  have s': "sync_model_name L (PromptyModelConfig_dump r) =
      Inr \<lparr>configuration_given = Instance (OpenAI x),
           parameters_given = Instance (ChatCompletion q'),
           other_values = [(''api'', PStr (api r)), (''response'', PStr (response r))]\<rparr>"
    by (simp add: sync_model_name_def PromptyModelConfig_dump_def conf pars coerce_configuration_def
        coerce_parameters_def tag' x' q'' nonempty same)
  have ga: "field ''api'' (Some ''chat'') (literal_validator [''chat'', ''completion''])
      [(''api'', PStr (api r)), (''response'', PStr (response r))] = Inr (api r)"
    by (rule field_plain_roundtrip[OF fa idem_literal]) simp_all
  have gr: "field ''response'' (Some ''first'') str_validator
      [(''api'', PStr (api r)), (''response'', PStr (response r))] = Inr (response r)"
    by (rule field_plain_roundtrip[OF fr idem_str]) simp_all
  show ?thesis
    unfolding PromptyModelConfig_init_def s'
    by (simp add: ga gr model_field_def conf[symmetric] pars[symmetric] PromptyModelConfig.defs)
qed

text \<open>
  Claim C8, as stated: constructing a second record from the serialized field mapping of
  any record of the schema yields a record equal to the first. A template definition's
  model built with text-completion parameters serializes its parameters to a raw
  mapping, and the pass builds a raw parameters mapping into the chat-completion variant:
  the second record holds chat-completion parameters and differs from the first. A client
  configuration whose free-form \<open>proxies\<close> value is a message object serializes it to a
  mapping: the second record holds the mapping and differs from the first.
\<close>

theorem roundtrip_text_completion_counterexample:
  "(\<forall>rc rp. PromptyModelConfig_init strict rc rp completion_values = Inr completion_template) \<and>
   (\<forall>rc rp. PromptyModelConfig_init strict rc rp (PromptyModelConfig_dump completion_template)
     = Inr (completion_template\<lparr>parameters := ChatCompletion chat_defaults\<rparr>)) \<and>
   completion_template\<lparr>parameters := ChatCompletion chat_defaults\<rparr> \<noteq> completion_template \<and>
   HFInferenceClientConfig_init strict
     [(''proxies'', PMessage [(''role'', PStr ''user''), (''content'', PStr ''x'')])]
     = Inr hf_message_example \<and>
   HFInferenceClientConfig_init strict (HFInferenceClientConfig_dump hf_message_example)
     = Inr (hf_message_example\<lparr>proxies :=
         Some (PDict [(''role'', PStr ''user''), (''content'', PStr ''x'')])\<rparr>) \<and>
   hf_message_example\<lparr>proxies :=
       Some (PDict [(''role'', PStr ''user''), (''content'', PStr ''x'')])\<rparr>
     \<noteq> hf_message_example"
proof (intro conjI allI)
  show "PromptyModelConfig_init strict rc rp completion_values = Inr completion_template"
    for rc rp
    by (simp add: PromptyModelConfig_init_def sync_model_name_def coerce_configuration_def
        coerce_parameters_def completion_values_def completion_template_def openai_defaults_def
        text_defaults_def field_def model_field_def PromptyModelConfig.defs
        literal_validator_def)
  have c: "OpenAIModelConfig_init (OpenAIModelConfig_dump openai_defaults) = Inr openai_defaults"
    by (simp add: OpenAIModelConfig_init_def OpenAIModelConfig_dump_def openai_defaults_def
        field_def field_validate_default_def optional_def opt_dump_def OpenAIModelConfig.defs
        literal_validator_def str_validator_def)
  have p: "OpenAIChatCompletionParams_init strict (OpenAITextCompletionParams_dump text_defaults)
      = Inr chat_defaults"
    by (simp add: OpenAIChatCompletionParams_init_def OpenAITextCompletionParams_dump_def
        text_defaults_def chat_defaults_def field_def optional_def opt_dump_def
        OpenAIChatCompletionParams.defs str_validator_def float_validator_def as_float_def
        bool_validator_def as_bool_def)
  have t: "map_of (OpenAIModelConfig_dump openai_defaults) ''type'' = Some (PStr ''openai'')"
    by (simp add: OpenAIModelConfig_dump_def openai_defaults_def)
  have n: "OpenAIModelConfig.name openai_defaults = ''gpt-4o''"
    by (simp add: openai_defaults_def)
  have m: "chat_defaults\<lparr>OpenAIParamsBase.model := Some ''gpt-4o''\<rparr> = chat_defaults"
    by (simp add: chat_defaults_def)
  show "PromptyModelConfig_init strict rc rp (PromptyModelConfig_dump completion_template)
     = Inr (completion_template\<lparr>parameters := ChatCompletion chat_defaults\<rparr>)" for rc rp
    by (simp add: PromptyModelConfig_init_def sync_model_name_def coerce_configuration_def
        coerce_parameters_def PromptyModelConfig_dump_def completion_template_def t c p n m
        field_def model_field_def PromptyModelConfig.defs literal_validator_def
        str_validator_def)
  show "completion_template\<lparr>parameters := ChatCompletion chat_defaults\<rparr> \<noteq> completion_template"
    by (simp add: completion_template_def)
  show "HFInferenceClientConfig_init strict
     [(''proxies'', PMessage [(''role'', PStr ''user''), (''content'', PStr ''x'')])]
     = Inr hf_message_example"
    by (simp add: HFInferenceClientConfig_init_def hf_message_example_def hf_client_example_def
        field_def optional_def any_validator_def HFInferenceClientConfig.defs)
  show "HFInferenceClientConfig_init strict (HFInferenceClientConfig_dump hf_message_example)
     = Inr (hf_message_example\<lparr>proxies :=
         Some (PDict [(''role'', PStr ''user''), (''content'', PStr ''x'')])\<rparr>)"
    by (simp add: HFInferenceClientConfig_init_def HFInferenceClientConfig_dump_def
        hf_message_example_def hf_client_example_def field_def optional_def opt_dump_def
        any_validator_def HFInferenceClientConfig.defs)
  show "hf_message_example\<lparr>proxies :=
       Some (PDict [(''role'', PStr ''user''), (''content'', PStr ''x'')])\<rparr>
     \<noteq> hf_message_example"
    by (simp add: hf_message_example_def hf_client_example_def)
qed

text \<open>
  Claim C8, amended: the round trip yields an equal record for every client
  configuration, every model configuration and every parameter set whose free-form
  values (\<open>proxies\<close>, the entries of \<open>tools\<close>, \<open>tool_choice\<close>, \<open>function_call\<close>) hold no
  model object, so that serializing leaves them as they are, and for a template
  definition's model that was built from raw mappings with the direct-API tag, whose
  parameters are the chat-completion variant, under the same condition on its
  parameters.
\<close>

theorem roundtrip_records:
  "(HFInferenceClientConfig_init L d = Inr c1 \<and> plain_proxies c1 \<longrightarrow>
      HFInferenceClientConfig_init L (HFInferenceClientConfig_dump c1) = Inr c1) \<and>
   (OpenAIClientConfig_init d = Inr c2 \<longrightarrow>
      OpenAIClientConfig_init (OpenAIClientConfig_dump c2) = Inr c2) \<and>
   (AzureOpenAIClientConfig_init d = Inr c3 \<longrightarrow>
      AzureOpenAIClientConfig_init (AzureOpenAIClientConfig_dump c3) = Inr c3) \<and>
   (OpenAIModelConfig_init d = Inr c4 \<longrightarrow>
      OpenAIModelConfig_init (OpenAIModelConfig_dump c4) = Inr c4) \<and>
   (AzureOpenAIModelConfig_init d = Inr c5 \<longrightarrow>
      AzureOpenAIModelConfig_init (AzureOpenAIModelConfig_dump c5) = Inr c5) \<and>
   (HFHubModelConfig_init L d = Inr c6 \<and> plain_proxies c6 \<longrightarrow>
      HFHubModelConfig_init L (HFHubModelConfig_dump c6) = Inr c6) \<and>
   (OpenAITextCompletionParams_init L d = Inr c7 \<longrightarrow>
      OpenAITextCompletionParams_init L (OpenAITextCompletionParams_dump c7) = Inr c7) \<and>
   (OpenAIChatCompletionParams_init L d = Inr c8 \<and> plain_chat c8 \<longrightarrow>
      OpenAIChatCompletionParams_init L (OpenAIChatCompletionParams_dump c8) = Inr c8) \<and>
   (PromptyModelConfig_init L rc rp
        \<lparr>configuration_given = Mapping d, parameters_given = Mapping dp, other_values = dv\<rparr>
      = Inr r \<and>
    map_of d ''type'' = Some (PStr ''openai'') \<and> plain_parameters (parameters r) \<longrightarrow>
      PromptyModelConfig_init L rc rp (PromptyModelConfig_dump r) = Inr r)"
proof (intro conjI impI)
  assume "PromptyModelConfig_init L rc rp
        \<lparr>configuration_given = Mapping d, parameters_given = Mapping dp, other_values = dv\<rparr>
      = Inr r \<and>
    map_of d ''type'' = Some (PStr ''openai'') \<and> plain_parameters (parameters r)"
  then show "PromptyModelConfig_init L rc rp (PromptyModelConfig_dump r) = Inr r"
    using PromptyModelConfig_roundtrip[of L rc rp d dp dv r] by simp
next
  assume "HFInferenceClientConfig_init L d = Inr c1 \<and> plain_proxies c1"
  then show "HFInferenceClientConfig_init L (HFInferenceClientConfig_dump c1) = Inr c1"
    using HFInferenceClientConfig_roundtrip[of L d c1] by simp
next
  assume "HFHubModelConfig_init L d = Inr c6 \<and> plain_proxies c6"
  then show "HFHubModelConfig_init L (HFHubModelConfig_dump c6) = Inr c6"
    using HFHubModelConfig_roundtrip[of L d c6] by simp
next
  assume "OpenAIChatCompletionParams_init L d = Inr c8 \<and> plain_chat c8"
  then show "OpenAIChatCompletionParams_init L (OpenAIChatCompletionParams_dump c8) = Inr c8"
    using OpenAIChatCompletionParams_roundtrip[of L d c8] by simp
qed (erule OpenAIClientConfig_roundtrip AzureOpenAIClientConfig_roundtrip
    OpenAIModelConfig_roundtrip AzureOpenAIModelConfig_roundtrip
    OpenAITextCompletionParams_roundtrip)+

theorem roundtrip_records_witness:
  "HFInferenceClientConfig_init strict
     [(''model'', PNone), (''proxies'', PDict [(''https'', PStr ''proxy.example:3128'')])]
     = Inr hf_client_example \<and>
   HFInferenceClientConfig_init strict (HFInferenceClientConfig_dump hf_client_example) = Inr hf_client_example \<and>
   OpenAIClientConfig_init
     [(''type'', PStr ''openai''), (''base_url'', PNone)]
     = Inr openai_client_defaults \<and>
   OpenAIClientConfig_init (OpenAIClientConfig_dump openai_client_defaults) = Inr openai_client_defaults \<and>
   AzureOpenAIClientConfig_init
     [(''api_version'', PNone),
      (''azure_endpoint'', PStr ''https://example.openai.azure.com'')]
     = Inr azure_client_example \<and>
   AzureOpenAIClientConfig_init (AzureOpenAIClientConfig_dump azure_client_example) = Inr azure_client_example \<and>
   OpenAIModelConfig_init
     [(''type'', PStr ''openai''), (''name'', PNone)]
     = Inr openai_defaults \<and>
   OpenAIModelConfig_init (OpenAIModelConfig_dump openai_defaults) = Inr openai_defaults \<and>
   AzureOpenAIModelConfig_init
     [(''type'', PNone), (''azure_endpoint'', PStr ''https://example.openai.azure.com'')]
     = Inr azure_example \<and>
   AzureOpenAIModelConfig_init (AzureOpenAIModelConfig_dump azure_example) = Inr azure_example \<and>
   HFHubModelConfig_init strict
     [(''type'', PStr ''huggingface''), (''model'', PStr ''example/model''),
      (''token'', PNone), (''proxies'', PDict [(''https'', PStr ''proxy.example:3128'')])]
     = Inr hf_hub_example \<and>
   HFHubModelConfig_init strict (HFHubModelConfig_dump hf_hub_example) = Inr hf_hub_example \<and>
   OpenAITextCompletionParams_init strict
     [(''temperature'', PNone)]
     = Inr text_defaults \<and>
   OpenAITextCompletionParams_init strict (OpenAITextCompletionParams_dump text_defaults) = Inr text_defaults \<and>
   OpenAIChatCompletionParams_init strict
     [(''n'', PNone), (''tools'', PList [PDict [(''type'', PStr ''function'')]])]
     = Inr chat_example \<and>
   OpenAIChatCompletionParams_init strict (OpenAIChatCompletionParams_dump chat_example) = Inr chat_example \<and>
   (\<forall>rc rp. PromptyModelConfig_init strict rc rp chat_values = Inr chat_template) \<and>
   (\<forall>rc rp. PromptyModelConfig_init strict rc rp (PromptyModelConfig_dump chat_template)
      = Inr chat_template)"
proof -
  have w1: "HFInferenceClientConfig_init strict (HFInferenceClientConfig_dump hf_client_example) = Inr hf_client_example"
    using roundtrip_records[where L = strict
        and d = "[(''model'', PNone), (''proxies'', PDict [(''https'', PStr ''proxy.example:3128'')])]"
        and ?c1.0 = hf_client_example,
        THEN conjunct1]
      client_examples(1) plain_examples(1)
    by simp
  have w2: "OpenAIClientConfig_init (OpenAIClientConfig_dump openai_client_defaults) = Inr openai_client_defaults"
    using roundtrip_records[where d = "[(''type'', PStr ''openai''), (''base_url'', PNone)]"
        and ?c2.0 = openai_client_defaults,
        THEN conjunct2, THEN conjunct1]
      client_examples(2)
    by simp
  have w3: "AzureOpenAIClientConfig_init (AzureOpenAIClientConfig_dump azure_client_example) = Inr azure_client_example"
    using roundtrip_records[where d = "[(''api_version'', PNone), (''azure_endpoint'', PStr ''https://example.openai.azure.com'')]"
        and ?c3.0 = azure_client_example,
        THEN conjunct2, THEN conjunct2, THEN conjunct1]
      client_examples(3)
    by simp
  have w4: "OpenAIModelConfig_init (OpenAIModelConfig_dump openai_defaults) = Inr openai_defaults"
    using roundtrip_records[where d = "[(''type'', PStr ''openai''), (''name'', PNone)]"
        and ?c4.0 = openai_defaults,
        THEN conjunct2, THEN conjunct2, THEN conjunct2, THEN conjunct1]
      model_examples(1)
    by simp
  have w5: "AzureOpenAIModelConfig_init (AzureOpenAIModelConfig_dump azure_example) = Inr azure_example"
    using roundtrip_records[where d = "[(''type'', PNone), (''azure_endpoint'', PStr ''https://example.openai.azure.com'')]"
        and ?c5.0 = azure_example,
        THEN conjunct2, THEN conjunct2, THEN conjunct2, THEN conjunct2, THEN conjunct1]
      model_examples(2)
    by simp
  have w6: "HFHubModelConfig_init strict (HFHubModelConfig_dump hf_hub_example) = Inr hf_hub_example"
    using roundtrip_records[where L = strict
        and d = "[(''type'', PStr ''huggingface''), (''model'', PStr ''example/model''), (''token'', PNone), (''proxies'', PDict [(''https'', PStr ''proxy.example:3128'')])]"
        and ?c6.0 = hf_hub_example,
        THEN conjunct2, THEN conjunct2, THEN conjunct2, THEN conjunct2, THEN conjunct2,
        THEN conjunct1]
      model_examples(3) plain_examples(2)
    by simp
  have w7: "OpenAITextCompletionParams_init strict (OpenAITextCompletionParams_dump text_defaults) = Inr text_defaults"
    using roundtrip_records[where L = strict
        and d = "[(''temperature'', PNone)]"
        and ?c7.0 = text_defaults,
        THEN conjunct2, THEN conjunct2, THEN conjunct2, THEN conjunct2, THEN conjunct2,
        THEN conjunct2, THEN conjunct1]
      parameter_examples(1)
    by simp
  have w8: "OpenAIChatCompletionParams_init strict (OpenAIChatCompletionParams_dump chat_example) = Inr chat_example"
    using roundtrip_records[where L = strict
        and d = "[(''n'', PNone), (''tools'', PList [PDict [(''type'', PStr ''function'')]])]"
        and ?c8.0 = chat_example,
        THEN conjunct2, THEN conjunct2, THEN conjunct2, THEN conjunct2, THEN conjunct2,
        THEN conjunct2, THEN conjunct2, THEN conjunct1]
      parameter_examples(2) plain_examples(3)
    by simp
  have w9: "PromptyModelConfig_init strict rc rp (PromptyModelConfig_dump chat_template)
      = Inr chat_template" for rc rp
    using roundtrip_records[where L = strict and rc = rc and rp = rp
        and d = "[(''type'', PStr ''openai'')]" and dp = "[(''n'', PInt 1)]"
        and dv = "[(''api'', PNone)]" and r = chat_template,
        THEN conjunct2, THEN conjunct2, THEN conjunct2, THEN conjunct2, THEN conjunct2,
        THEN conjunct2, THEN conjunct2, THEN conjunct2]
      template_example[of rc rp] plain_examples(4)
    by (simp add: chat_values_def chat_template_def)
  show ?thesis
    using w1 w2 w3 w4 w5 w6 w7 w8 w9
    by (simp add: client_examples model_examples parameter_examples template_example)
qed


end
